theory Spec2Isabelle
  imports Main "HOL-Library.Word"
begin

section \<open>JSON values\<close>

text \<open>
  A JavaScript number is an IEEE 754 double: a sign bit, 11 bits of exponent and 52 bits
  of fraction. The exponent 2047 holds the values that are not finite: the two infinities
  (fraction 0) and the NaNs. \<open>JSON.parse\<close> rounds a literal to the nearest double, and reads
  one that is too large, such as \<open>1e999\<close>, as an infinity; it never gives a NaN.
\<close>

datatype double = Double (dbl_sign: bool) (dbl_exponent: "11 word") (dbl_fraction: "52 word")

definition is_NaN :: "double \<Rightarrow> bool" where
  "is_NaN d = (dbl_exponent d = 2047 \<and> dbl_fraction d \<noteq> 0)"

definition is_finite :: "double \<Rightarrow> bool" where
  "is_finite d = (dbl_exponent d \<noteq> 2047)"

definition is_zero :: "double \<Rightarrow> bool" where
  "is_zero d = (dbl_exponent d = 0 \<and> dbl_fraction d = 0)"

definition plus_zero :: double where
  "plus_zero = Double False 0 0"

definition double_one :: double where
  "double_one = Double False 1023 0"

definition plus_infinity :: double where
  "plus_infinity = Double False 2047 0"

text \<open>
  The values \<open>JSON.parse\<close> produces. An object is the list of its own properties (the
  first binding of a key is the property).
\<close>

datatype json =
    JNull
  | JBool bool
  | JNum double
  | JStr string
  | JArr "json list"
  | JObj "(string \<times> json) list"

text \<open>JavaScript's \<open>typeof v === 'object'\<close> together with truthiness: objects and arrays,
  not \<open>null\<close>.\<close>

fun is_object :: "json \<Rightarrow> bool" where
  "is_object (JObj _) = True"
| "is_object (JArr _) = True"
| "is_object _ = False"

text \<open>The decimal rendering of an array index, as JavaScript's property keys have it.\<close>

definition digit_char :: "nat \<Rightarrow> char" where
  "digit_char d = char_of (48 + d)"

fun show_nat_fuel :: "nat \<Rightarrow> nat \<Rightarrow> string" where
  "show_nat_fuel 0 n = [digit_char (n mod 10)]"
| "show_nat_fuel (Suc k) n =
     (if n < 10 then [digit_char n] else show_nat_fuel k (n div 10) @ [digit_char (n mod 10)])"

definition show_nat :: "nat \<Rightarrow> string" where
  "show_nat n = show_nat_fuel n n"

text \<open>
  \<open>v?.[key]\<close> as far as \<open>normalizeSchema\<close> can tell: the own property of an object, the
  element of an array at a canonical index, and nothing for \<open>null\<close>. A member of a string,
  number or boolean is never an object, so it is \<open>None\<close> here; properties inherited from
  \<open>Object.prototype\<close> are outside this data model.
\<close>

fun get_member :: "json \<Rightarrow> string \<Rightarrow> json option" where
  "get_member (JObj ps) k = map_of ps k"
| "get_member (JArr xs) k =
     (case find (\<lambda>i. show_nat i = k) [0..<length xs] of
        None \<Rightarrow> None
      | Some i \<Rightarrow> Some (xs ! i))"
| "get_member _ k = None"

text \<open>\<open>s.replace(pat, '')\<close> with a string pattern: the first occurrence of \<open>pat\<close> is
  removed, wherever it is.\<close>

fun remove_first :: "string \<Rightarrow> string \<Rightarrow> string" where
  "remove_first pat [] = []"
| "remove_first pat (c # cs) =
     (if take (length pat) (c # cs) = pat then drop (length pat) (c # cs)
      else c # remove_first pat cs)"

section \<open>Errors as values\<close>

text \<open>
  What a JavaScript \<open>throw\<close> carries: an \<open>Error\<close> instance of one of the classes the
  dispatcher tells apart, with its message, or any other value.
\<close>

datatype thrown =
    SyntaxError string
  | ZodError string
  | TypeError string
  | OtherError string
  | NonError json

fun instanceof_Error :: "thrown \<Rightarrow> bool" where
  "instanceof_Error (NonError _) = False"
| "instanceof_Error _ = True"

fun message :: "thrown \<Rightarrow> string" where
  "message (SyntaxError m) = m"
| "message (ZodError m) = m"
| "message (TypeError m) = m"
| "message (OtherError m) = m"
| "message (NonError _) = []"

section \<open>utilities.ts: the schema adapter\<close>

text \<open>
  \<open>normalizeSchema\<close>. The source reads \<open>$ref\<close> as a string; on any other value
  \<open>$ref.replace\<close> raises a \<open>TypeError\<close>.
\<close>

fun normalizeSchema :: "json \<Rightarrow> thrown + json" where
  "normalizeSchema (JObj ps) =
     (case (map_of ps ''$ref'', map_of ps ''definitions'') of
        (Some r, Some definitions) \<Rightarrow>
          (case r of
             JStr ref \<Rightarrow>
               (let refKey = remove_first ''#/definitions/'' ref;
                    resolved = get_member definitions refKey
                in case resolved of
                     Some v \<Rightarrow> if is_object v then Inr v else Inr (JObj ps)
                   | None \<Rightarrow> Inr (JObj ps))
           | _ \<Rightarrow> Inl (TypeError ''$ref.replace is not a function''))
      | _ \<Rightarrow> Inr (JObj ps))"
| "normalizeSchema schema = Inr schema"

text \<open>
  A Zod schema, as far as this program uses one: \<open>safeParse\<close> gives the parsed value,
  which a schema may make \<open>undefined\<close> (\<open>None\<close>), or a \<open>ZodError\<close>, of which the program
  reads \<open>message\<close> and the serialised \<open>flatten()\<close>;
  \<open>toJsonSchema name\<close> is what the library's \<open>zodToJsonSchema\<close> returns for the schema
  under the options \<open>{target: 'jsonSchema7', name}\<close>.
\<close>

record ZodIssues =
  issues_message :: string
  issues_flatten :: string

record ZodSchema =
  safeParse :: "json \<Rightarrow> ZodIssues + json option"
  toJsonSchema :: "string \<Rightarrow> json"

definition zodSchemaToToolSchema :: "string \<Rightarrow> ZodSchema \<Rightarrow> thrown + json" where
  "zodSchemaToToolSchema toolName schema =
     (let jsonSchema = toJsonSchema schema toolName;
          normalized = normalizeSchema jsonSchema
      in normalized)"

section \<open>types.ts and http/types.ts: the data model\<close>

datatype ToolResponseContent =
    TextContent string
  | ImageContent string string
  | AudioContent string string

text \<open>
  What awaiting a tool handler gives: its result, the value it raised, or nothing at all
  when its promise never settles.
\<close>

datatype HandlerOutcome =
    Returns "ToolResponseContent list"
  | Raises thrown
  | NeverSettles

record ToolDefinition =
  tool_name :: string
  tool_description :: "string option"
  tool_schema :: ZodSchema
  tool_handler :: "json \<Rightarrow> HandlerOutcome"

text \<open>The \<open>error\<close> argument of \<open>onToolCallError\<close>, of type \<open>Error | string\<close>.\<close>

datatype ErrorOrString =
    AsError thrown
  | AsString string

text \<open>
  A hook is a callback of the embedding application. The dispatcher sees of a call only
  whether it returns (\<open>None\<close>) or raises (\<open>Some e\<close>).
\<close>

record ServerHooks =
  onClientConnected :: "(string \<Rightarrow> string \<Rightarrow> string \<Rightarrow> thrown option) option"
  onToolRegistered :: "(string \<Rightarrow> string \<Rightarrow> thrown option) option"
  onToolCallStarted :: "(string \<Rightarrow> json \<Rightarrow> thrown option) option"
  onToolCallFinished ::
    "(string \<Rightarrow> json \<Rightarrow> ToolResponseContent list \<Rightarrow> int \<Rightarrow> thrown option) option"
  onToolCallError :: "(string \<Rightarrow> json \<Rightarrow> ErrorOrString \<Rightarrow> int \<Rightarrow> thrown option) option"
  onToolsListRequested :: "thrown option option"
  onServerError :: "(ErrorOrString \<Rightarrow> thrown option) option"

definition no_hooks :: ServerHooks where
  "no_hooks = \<lparr> onClientConnected = None, onToolRegistered = None, onToolCallStarted = None,
     onToolCallFinished = None, onToolCallError = None, onToolsListRequested = None,
     onServerError = None \<rparr>"

datatype JsonRpcId =
    IdString string
  | IdNumber double

definition ParseError :: int where "ParseError = - 32700"
definition InvalidRequest :: int where "InvalidRequest = - 32600"
definition MethodNotFound :: int where "MethodNotFound = - 32601"
definition InvalidParams :: int where "InvalidParams = - 32602"
definition InternalError :: int where "InternalError = - 32603"
definition NotInitialized :: int where "NotInitialized = - 32002"

record JsonRpcRequest =
  rpc_id :: "JsonRpcId option"
  rpc_method :: string
  rpc_params :: "json option"

text \<open>
  The three Zod object schemas of \<open>http/types.ts\<close>, each as the test its \<open>parse\<close> makes.
  \<open>None\<close> is a failed parse (a \<open>ZodError\<close>). An optional key passes when it is absent;
  \<open>z.number()\<close> takes every number but a NaN, so also an infinity.
\<close>

definition JsonRpcRequestSchema_parse :: "json \<Rightarrow> JsonRpcRequest option" where
  "JsonRpcRequestSchema_parse v =
     (case v of
        JObj ps \<Rightarrow>
          (if map_of ps ''jsonrpc'' \<noteq> Some (JStr ''2.0'') then None
           else
             (case (case map_of ps ''id'' of
                      None \<Rightarrow> Some None
                    | Some (JStr s) \<Rightarrow> Some (Some (IdString s))
                    | Some (JNum n) \<Rightarrow> if is_NaN n then None else Some (Some (IdNumber n))
                    | Some _ \<Rightarrow> None) of
                None \<Rightarrow> None
              | Some i \<Rightarrow>
                  (case map_of ps ''method'' of
                     Some (JStr m) \<Rightarrow>
                       (case map_of ps ''params'' of
                          None \<Rightarrow> Some \<lparr> rpc_id = i, rpc_method = m, rpc_params = None \<rparr>
                        | Some (JObj qs) \<Rightarrow>
                            Some \<lparr> rpc_id = i, rpc_method = m, rpc_params = Some (JObj qs) \<rparr>
                        | Some (JArr xs) \<Rightarrow>
                            Some \<lparr> rpc_id = i, rpc_method = m, rpc_params = Some (JArr xs) \<rparr>
                        | Some _ \<Rightarrow> None)
                   | _ \<Rightarrow> None)))
      | _ \<Rightarrow> None)"

record InitializeParams =
  protocolVersion :: string
  clientInfo_name :: string
  clientInfo_version :: string

text \<open>\<open>z.string().min(1)\<close>: a string that is not empty.\<close>

fun nonempty_string :: "json option \<Rightarrow> string option" where
  "nonempty_string (Some (JStr s)) = (if s = [] then None else Some s)"
| "nonempty_string _ = None"

text \<open>\<open>z.record(z.unknown()).optional()\<close>: absent, or an object that is not an array.\<close>

fun optional_record :: "json option \<Rightarrow> bool" where
  "optional_record None = True"
| "optional_record (Some (JObj _)) = True"
| "optional_record _ = False"

definition InitializeParamsSchema_safeParse :: "json option \<Rightarrow> InitializeParams option" where
  "InitializeParamsSchema_safeParse params =
     (case params of
        Some (JObj ps) \<Rightarrow>
          (case nonempty_string (map_of ps ''protocolVersion'') of
             None \<Rightarrow> None
           | Some pv \<Rightarrow>
               (case map_of ps ''clientInfo'' of
                  Some (JObj cs) \<Rightarrow>
                    (case (nonempty_string (map_of cs ''name''),
                           nonempty_string (map_of cs ''version'')) of
                       (Some n, Some v) \<Rightarrow>
                         (if optional_record (map_of ps ''capabilities'')
                          then Some \<lparr> protocolVersion = pv, clientInfo_name = n,
                                      clientInfo_version = v \<rparr>
                          else None)
                     | _ \<Rightarrow> None)
                | _ \<Rightarrow> None))
      | _ \<Rightarrow> None)"

record CallToolParams =
  call_name :: string
  call_arguments :: "json option"

definition CallToolParamsSchema_safeParse :: "json option \<Rightarrow> CallToolParams option" where
  "CallToolParamsSchema_safeParse params =
     (case params of
        Some (JObj ps) \<Rightarrow>
          (case nonempty_string (map_of ps ''name'') of
             None \<Rightarrow> None
           | Some n \<Rightarrow>
               (if optional_record (map_of ps ''arguments'')
                then Some \<lparr> call_name = n, call_arguments = map_of ps ''arguments'' \<rparr>
                else None))
      | _ \<Rightarrow> None)"

datatype AllowedOrigins =
    Wildcard
  | Origins "string list"

datatype HeaderValue =
    Absent
  | Single string
  | Multiple "string list"

text \<open>
  What reading the request stream and \<open>JSON.parse\<close> give for the body: a \<open>SyntaxError\<close>
  with its message, the parsed value, or a failure of the stream itself.
\<close>

datatype RequestBody =
    MalformedJson string
  | ParsedJson json
  | StreamFailure thrown

record IncomingMessage =
  req_method :: string
  req_url :: "string option"
  req_origin :: "string option"
  req_access_control_request_headers :: HeaderValue
  req_body :: RequestBody

datatype RpcResult =
    InitializeResult string string string
  | ToolsListResult "(string \<times> string option \<times> json) list"
  | ToolCallResult "ToolResponseContent list"
  | PingResult

text \<open>The body handed to \<open>res.end\<close>, before serialisation.\<close>

datatype ResponseBody =
    NoBody
  | PlainText string
  | JsonRpcError "JsonRpcId option" int string
  | JsonRpcResult "JsonRpcId option" RpcResult

text \<open>
  A response under construction: the headers set so far and every \<open>writeHead(status)\<close>
  with the body that \<open>end\<close> sent after it, in order.
\<close>

record ServerResponse =
  res_headers :: "string \<rightharpoonup> string"
  res_writes :: "(nat \<times> ResponseBody) list"

definition fresh_response :: ServerResponse where
  "fresh_response = \<lparr> res_headers = Map.empty, res_writes = [] \<rparr>"

type_synonym RouteHandler = "IncomingMessage \<Rightarrow> ServerResponse \<Rightarrow> ServerResponse"

datatype HttpMethod = GET | POST | PUT | DELETE | PATCH | HEAD

type_synonym Routes = "(string \<times> (HttpMethod \<times> RouteHandler) list) list"

text \<open>Every option is optional; \<open>port\<close> and \<open>host\<close> only matter to the listening socket
  and are left out.\<close>

record HttpTransportOptions =
  opt_path :: "string option"
  opt_hooks :: "ServerHooks option"
  opt_allowedOrigins :: "AllowedOrigins option"
  opt_customRoutes :: "Routes option"

definition DEFAULT_HTTP_TRANSPORT_OPTIONS :: HttpTransportOptions where
  "DEFAULT_HTTP_TRANSPORT_OPTIONS =
     \<lparr> opt_path = Some ''/mcp'', opt_hooks = None, opt_allowedOrigins = Some Wildcard,
       opt_customRoutes = None \<rparr>"

text \<open>
  The server's registries. \<open>srv_tools\<close> is the JavaScript \<open>Map\<close> of tools, in insertion
  order.
\<close>

record McpServer =
  srv_name :: string
  srv_version :: string
  srv_tools :: "(string \<times> ToolDefinition) list"
  srv_endpoints :: Routes
  srv_hooks :: "ServerHooks option"
  srv_started :: bool

record HttpTransport =
  options :: HttpTransportOptions
  mcpServer :: McpServer
  allowedOrigins :: AllowedOrigins

section \<open>The observable run\<close>

text \<open>
  Each call of a hook that is configured, and each call of a tool handler, is recorded in
  order. A hook that is not configured is not called and leaves no event.
\<close>

datatype Event =
    ClientConnected string string string
  | ToolRegistered string string
  | ToolCallStarted string json
  | ToolCallFinished string json "ToolResponseContent list" int
  | ToolCallError string json ErrorOrString int
  | ToolsListRequested
  | HandlerCalled string json

text \<open>
  The runtime the program ranges over: \<open>clock k\<close> is what the \<open>k\<close>-th call of
  \<open>performance.now()\<close> returns, and \<open>zod_message schema params\<close> is the \<open>message\<close> the
  Zod library renders when the named schema of \<open>http/types.ts\<close> rejects \<open>params\<close>.
\<close>

record Runtime =
  clock :: "nat \<Rightarrow> int"
  zod_message :: "string \<Rightarrow> json option \<Rightarrow> string"

record World =
  trace :: "Event list"
  clock_reads :: nat
  res :: ServerResponse

definition fresh_world :: World where
  "fresh_world = \<lparr> trace = [], clock_reads = 0, res = fresh_response \<rparr>"

text \<open>How a call ends: it returns, it raises, or it waits for ever on a handler.\<close>

datatype 'a Outcome =
    Done 'a
  | Threw thrown
  | Pending

text \<open>\<open>hook?.(args)\<close>: \<open>call\<close> is \<open>None\<close> when the hook is not configured, and otherwise
  what the call does.\<close>

fun invoke :: "thrown option option \<Rightarrow> Event \<Rightarrow> World \<Rightarrow> thrown option \<times> World" where
  "invoke None ev w = (None, w)"
| "invoke (Some r) ev w = (r, w\<lparr> trace := trace w @ [ev] \<rparr>)"

definition performance_now :: "Runtime \<Rightarrow> World \<Rightarrow> int \<times> World" where
  "performance_now rt w = (clock rt (clock_reads w), w\<lparr> clock_reads := Suc (clock_reads w) \<rparr>)"

text \<open>\<open>{...a, ...b}\<close> on one optional field: the value of \<open>b\<close> where it has one.\<close>

fun spread :: "'a option \<Rightarrow> 'a option \<Rightarrow> 'a option" where
  "spread a None = a"
| "spread a (Some v) = Some v"

section \<open>server.ts: the tool registry\<close>

definition getTools :: "McpServer \<Rightarrow> ToolDefinition list" where
  "getTools s = map snd (srv_tools s)"

definition getTool :: "McpServer \<Rightarrow> string \<Rightarrow> ToolDefinition option" where
  "getTool s name = map_of (srv_tools s) name"

definition hasTool :: "McpServer \<Rightarrow> string \<Rightarrow> bool" where
  "hasTool s name = (name \<in> set (map fst (srv_tools s)))"

text \<open>\<open>Map.prototype.set\<close>: a present key keeps its place and takes the new value, a new
  key goes to the end.\<close>

fun Map_set :: "'k \<Rightarrow> 'v \<Rightarrow> ('k \<times> 'v) list \<Rightarrow> ('k \<times> 'v) list" where
  "Map_set k v [] = [(k, v)]"
| "Map_set k v (p # ps) = (if fst p = k then (k, v) # ps else p # Map_set k v ps)"

text \<open>
  \<open>McpServer.tool\<close>. The result is how the call ends, the server afterwards and the hook
  calls made. The tool is stored before the hook runs, so a hook that raises leaves it
  stored.
\<close>

definition tool :: "McpServer \<Rightarrow> ToolDefinition \<Rightarrow> unit Outcome \<times> McpServer \<times> Event list" where
  "tool s t =
     (if hasTool s (tool_name t)
      then (Threw (OtherError (''Tool '' @ [CHR 0x27] @ tool_name t @ [CHR 0x27] @ '' is already registered'')),
            s, [])
      else
        (let s' = s\<lparr> srv_tools := Map_set (tool_name t) t (srv_tools s) \<rparr>;
             description = (case tool_description t of None \<Rightarrow> [] | Some d \<Rightarrow> d)
         in case (case srv_hooks s of None \<Rightarrow> None | Some h \<Rightarrow> onToolRegistered h) of
              None \<Rightarrow> (Done (), s', [])
            | Some hook \<Rightarrow>
                (case hook (tool_name t) description of
                   None \<Rightarrow> (Done (), s', [ToolRegistered (tool_name t) description])
                 | Some e \<Rightarrow> (Threw e, s', [ToolRegistered (tool_name t) description]))))"

section \<open>server.ts: the route registry\<close>

fun method_name :: "HttpMethod \<Rightarrow> string" where
  "method_name GET = ''GET''"
| "method_name POST = ''POST''"
| "method_name PUT = ''PUT''"
| "method_name DELETE = ''DELETE''"
| "method_name PATCH = ''PATCH''"
| "method_name HEAD = ''HEAD''"

definition Map_has :: "('k \<times> 'v) list \<Rightarrow> 'k \<Rightarrow> bool" where
  "Map_has m k = (k \<in> set (map fst m))"

definition already_registered :: "HttpMethod \<Rightarrow> string \<Rightarrow> thrown" where
  "already_registered m p =
     OtherError (''Endpoint '' @ [CHR 0x27] @ method_name m @ '' '' @ p @ [CHR 0x27] @ '' is already registered'')"

text \<open>\<open>McpServer.route\<close>. It raises only for a path that was there already, so the
  server is as before then.\<close>

definition route :: "McpServer \<Rightarrow> HttpMethod \<Rightarrow> string \<Rightarrow> RouteHandler \<Rightarrow> thrown + McpServer" where
  "route s m p handler =
     (let normalizedPath = (if take 1 p = ''/'' then p else ''/'' @ p);
          endpoints1 = (if \<not> Map_has (srv_endpoints s) normalizedPath
                        then Map_set normalizedPath [] (srv_endpoints s)
                        else srv_endpoints s);
          methodMap = (case map_of endpoints1 normalizedPath of None \<Rightarrow> [] | Some mm \<Rightarrow> mm)
      in if Map_has methodMap m then Inl (already_registered m normalizedPath)
         else Inr (s\<lparr> srv_endpoints := Map_set normalizedPath (Map_set m handler methodMap) endpoints1 \<rparr>))"

text \<open>The two loops of \<open>McpServer.start\<close> that merge \<open>options.customRoutes\<close> into a copy of
  the server's endpoints.\<close>

fun merge_methods ::
  "string \<Rightarrow> (HttpMethod \<times> RouteHandler) list \<Rightarrow> (HttpMethod \<times> RouteHandler) list
     \<Rightarrow> thrown + (HttpMethod \<times> RouteHandler) list" where
  "merge_methods p targetMethodMap [] = Inr targetMethodMap"
| "merge_methods p targetMethodMap (e # es) =
     (if Map_has targetMethodMap (fst e) then Inl (already_registered (fst e) p)
      else merge_methods p (Map_set (fst e) (snd e) targetMethodMap) es)"

definition path_conflict :: "string \<Rightarrow> thrown" where
  "path_conflict mcpPath =
     OtherError (''Custom endpoint path cannot match MCP path '' @ [CHR 0x27] @ mcpPath @ [CHR 0x27])"

fun merge_routes :: "string \<Rightarrow> Routes \<Rightarrow> Routes \<Rightarrow> thrown + Routes" where
  "merge_routes mcpPath mergedRoutes [] = Inr mergedRoutes"
| "merge_routes mcpPath mergedRoutes (e # es) =
     (if fst e = mcpPath then Inl (path_conflict mcpPath)
      else
        (let merged1 = (if \<not> Map_has mergedRoutes (fst e) then Map_set (fst e) [] mergedRoutes
                        else mergedRoutes);
             targetMethodMap = (case map_of merged1 (fst e) of None \<Rightarrow> [] | Some mm \<Rightarrow> mm)
         in case merge_methods (fst e) targetMethodMap (snd e) of
              Inl err \<Rightarrow> Inl err
            | Inr mm \<Rightarrow> merge_routes mcpPath (Map_set (fst e) mm merged1) es))"

text \<open>\<open>{...this.hooks, ...options?.hooks}\<close>.\<close>

definition spread_hooks :: "ServerHooks option \<Rightarrow> ServerHooks option \<Rightarrow> ServerHooks" where
  "spread_hooks a b =
     (let x = (case a of None \<Rightarrow> no_hooks | Some h \<Rightarrow> h);
          y = (case b of None \<Rightarrow> no_hooks | Some h \<Rightarrow> h)
      in \<lparr> onClientConnected = spread (onClientConnected x) (onClientConnected y),
           onToolRegistered = spread (onToolRegistered x) (onToolRegistered y),
           onToolCallStarted = spread (onToolCallStarted x) (onToolCallStarted y),
           onToolCallFinished = spread (onToolCallFinished x) (onToolCallFinished y),
           onToolCallError = spread (onToolCallError x) (onToolCallError y),
           onToolsListRequested = spread (onToolsListRequested x) (onToolsListRequested y),
           onServerError = spread (onServerError x) (onServerError y) \<rparr>)"

section \<open>utilities.ts: reading requests, sending responses\<close>

definition setHeader :: "string \<Rightarrow> string \<Rightarrow> ServerResponse \<Rightarrow> ServerResponse" where
  "setHeader name v r = r\<lparr> res_headers := (res_headers r)(name \<mapsto> v) \<rparr>"

text \<open>\<open>res.writeHead(status, {'Content-Type': ct}).end(body)\<close>.\<close>

definition writeHead_end :: "nat \<Rightarrow> string option \<Rightarrow> ResponseBody \<Rightarrow> ServerResponse \<Rightarrow> ServerResponse" where
  "writeHead_end status contentType body r =
     r\<lparr> res_headers :=
           (case contentType of
              None \<Rightarrow> res_headers r
            | Some ct \<Rightarrow> (res_headers r)(''Content-Type'' \<mapsto> ct)),
        res_writes := res_writes r @ [(status, body)] \<rparr>"

definition HTTP_OK :: nat where
  "HTTP_OK = 200"

definition sendError :: "nat \<Rightarrow> string \<Rightarrow> ServerResponse \<Rightarrow> ServerResponse" where
  "sendError status msg r = writeHead_end status (Some ''text/plain'') (PlainText msg) r"

definition sendJsonRpcProtocolError ::
  "JsonRpcId option \<Rightarrow> int \<Rightarrow> string \<Rightarrow> ServerResponse \<Rightarrow> ServerResponse" where
  "sendJsonRpcProtocolError requestId code msg r =
     writeHead_end HTTP_OK (Some ''application/json'') (JsonRpcError requestId code msg) r"

definition sendJsonRpcResponse :: "JsonRpcId option \<Rightarrow> RpcResult \<Rightarrow> ServerResponse \<Rightarrow> ServerResponse" where
  "sendJsonRpcResponse requestId response r =
     writeHead_end HTTP_OK (Some ''application/json'') (JsonRpcResult requestId response) r"

text \<open>
  The \<open>id\<close> member as \<open>JSON.stringify\<close> writes it into the response text, given as the
  value a client reads back: a number that is not finite is written \<open>null\<close>, and \<open>-0\<close> is
  written \<open>0\<close>; every other number and every string is read back as it was.
\<close>

datatype WireId =
    WireNull
  | WireString string
  | WireNumber double

fun JSON_stringify_id :: "JsonRpcId option \<Rightarrow> WireId" where
  "JSON_stringify_id None = WireNull"
| "JSON_stringify_id (Some (IdString s)) = WireString s"
| "JSON_stringify_id (Some (IdNumber n)) =
     (if is_finite n then WireNumber (if is_zero n then plus_zero else n) else WireNull)"

fun wire_id :: "ResponseBody \<Rightarrow> WireId option" where
  "wire_id (JsonRpcError i c m) = Some (JSON_stringify_id i)"
| "wire_id (JsonRpcResult i r) = Some (JSON_stringify_id i)"
| "wire_id _ = None"

text \<open>\<open>readRequestBody\<close>: \<open>JSON.parse\<close> raises a \<open>SyntaxError\<close>, and
  \<open>JsonRpcRequestSchema.parse\<close> a \<open>ZodError\<close>.\<close>

definition readRequestBody :: "Runtime \<Rightarrow> IncomingMessage \<Rightarrow> thrown + JsonRpcRequest" where
  "readRequestBody rt req =
     (case req_body req of
        StreamFailure e \<Rightarrow> Inl e
      | MalformedJson m \<Rightarrow> Inl (SyntaxError m)
      | ParsedJson parsedBody \<Rightarrow>
          (case JsonRpcRequestSchema_parse parsedBody of
             None \<Rightarrow> Inl (ZodError (zod_message rt ''JsonRpcRequestSchema'' (Some parsedBody)))
           | Some request \<Rightarrow> Inr request))"

section \<open>http-transport.ts\<close>

definition normalizeAllowedOrigins :: "HttpTransportOptions \<Rightarrow> AllowedOrigins" where
  "normalizeAllowedOrigins opts =
     (case opt_allowedOrigins opts of
        None \<Rightarrow> Wildcard
      | Some Wildcard \<Rightarrow> Wildcard
      | Some (Origins l) \<Rightarrow> Origins l)"

definition spread_options :: "HttpTransportOptions \<Rightarrow> HttpTransportOptions \<Rightarrow> HttpTransportOptions" where
  "spread_options a b =
     \<lparr> opt_path = spread (opt_path a) (opt_path b),
       opt_hooks = spread (opt_hooks a) (opt_hooks b),
       opt_allowedOrigins = spread (opt_allowedOrigins a) (opt_allowedOrigins b),
       opt_customRoutes = spread (opt_customRoutes a) (opt_customRoutes b) \<rparr>"

text \<open>The constructor of \<open>HttpTransport\<close>.\<close>

definition new_HttpTransport :: "McpServer \<Rightarrow> HttpTransportOptions option \<Rightarrow> HttpTransport" where
  "new_HttpTransport s config =
     (let opts = (case config of
                    None \<Rightarrow> DEFAULT_HTTP_TRANSPORT_OPTIONS
                  | Some c \<Rightarrow> spread_options DEFAULT_HTTP_TRANSPORT_OPTIONS c)
      in \<lparr> options = opts, mcpServer = s, allowedOrigins = normalizeAllowedOrigins opts \<rparr>)"

text \<open>
  \<open>McpServer.start\<close> (the name \<open>start\<close> is the start timestamp below), up to the transport
  it builds; opening the socket is not modelled.
\<close>

definition McpServer_start ::
  "McpServer \<Rightarrow> HttpTransportOptions option \<Rightarrow> thrown + McpServer \<times> HttpTransport" where
  "McpServer_start s opts =
     (if srv_started s then Inl (OtherError ''Server is already started'')
      else
        (let given = (case opts of
                        None \<Rightarrow> \<lparr> opt_path = None, opt_hooks = None, opt_allowedOrigins = None,
                                    opt_customRoutes = None \<rparr>
                      | Some c \<Rightarrow> c);
             mcpPath = (case opt_path given of None \<Rightarrow> ''/mcp'' | Some q \<Rightarrow> q)
         in if Map_has (srv_endpoints s) mcpPath then Inl (path_conflict mcpPath)
            else
              (case merge_routes mcpPath (srv_endpoints s)
                      (case opt_customRoutes given of None \<Rightarrow> [] | Some rs \<Rightarrow> rs) of
                 Inl err \<Rightarrow> Inl err
               | Inr mergedRoutes \<Rightarrow>
                   (let finalOptions = given\<lparr> opt_hooks := Some (spread_hooks (srv_hooks s) (opt_hooks given)),
                                               opt_customRoutes := Some mergedRoutes \<rparr>;
                        s' = s\<lparr> srv_started := True \<rparr>
                    in Inr (s', new_HttpTransport s' (Some finalOptions))))))"

text \<open>
  A header value is truthy when it is present and not the empty string. The guard
  \<open>if (!origin)\<close> of \<open>ensureCors\<close> therefore holds for an absent \<open>Origin\<close> header and for an
  empty one alike.
\<close>

fun truthy :: "string option \<Rightarrow> bool" where
  "truthy None = False"
| "truthy (Some s) = (s \<noteq> [])"

definition ensureCors :: "HttpTransport \<Rightarrow> IncomingMessage \<Rightarrow> ServerResponse \<Rightarrow> bool \<times> ServerResponse" where
  "ensureCors t req r =
     (let origin = req_origin req in
      case allowedOrigins t of
        Wildcard \<Rightarrow>
          (let r1 = (if truthy origin
                     then setHeader ''Vary'' ''Origin'' (setHeader ''Access-Control-Allow-Origin'' ''*'' r)
                     else r)
           in (True, setHeader ''Access-Control-Expose-Headers'' ''Mcp-Session-Id'' r1))
      | Origins allowed \<Rightarrow>
          (case origin of
             None \<Rightarrow> (True, r)
           | Some orig \<Rightarrow>
               if orig = [] then (True, r)
               else if orig \<in> set allowed
               then (True,
                     setHeader ''Vary'' ''Origin''
                       (setHeader ''Access-Control-Expose-Headers'' ''Mcp-Session-Id''
                         (setHeader ''Access-Control-Allow-Credentials'' ''true''
                           (setHeader ''Access-Control-Allow-Origin'' orig r))))
               else (False, sendError 403 ''Forbidden origin'' r)))"

text \<open>\<open>Array.prototype.join(', ')\<close>.\<close>

fun join_comma :: "string list \<Rightarrow> string" where
  "join_comma [] = []"
| "join_comma [x] = x"
| "join_comma (x # y # ys) = x @ '', '' @ join_comma (y # ys)"

definition sendPreflightResponse :: "HttpTransport \<Rightarrow> IncomingMessage \<Rightarrow> ServerResponse \<Rightarrow> ServerResponse" where
  "sendPreflightResponse t req r =
     (let headersValue =
            (case req_access_control_request_headers req of
               Multiple hs \<Rightarrow> join_comma hs
             | Single h \<Rightarrow> h
             | Absent \<Rightarrow> ''Content-Type, Accept, Mcp-Session-Id'');
          r1 = setHeader ''Access-Control-Allow-Methods'' ''POST, OPTIONS'' r;
          r2 = setHeader ''Access-Control-Allow-Headers'' headersValue r1;
          r3 = (if allowedOrigins t \<noteq> Wildcard
                then setHeader ''Access-Control-Allow-Credentials'' ''true'' r2
                else r2)
      in writeHead_end 204 None NoBody r3)"

text \<open>\<open>(req.url ?? '').split('?')[0]\<close>.\<close>

definition requestPath :: "IncomingMessage \<Rightarrow> string" where
  "requestPath req =
     takeWhile (\<lambda>c. c \<noteq> CHR ''?'') (case req_url req of None \<Rightarrow> [] | Some u \<Rightarrow> u)"

text \<open>\<open>canHandle\<close> never reads \<open>customRoutes\<close>.\<close>

definition canHandle :: "HttpTransport \<Rightarrow> IncomingMessage \<Rightarrow> ServerResponse \<Rightarrow> bool \<times> ServerResponse" where
  "canHandle t req r =
     (if req_method req = ''OPTIONS'' then (False, sendPreflightResponse t req r)
      else if Some (requestPath req) \<noteq> opt_path (options t)
      then (False, sendError 404 ''Not found'' r)
      else if req_method req \<noteq> ''POST''
      then (False, sendError 405 ''Method not allowed'' (setHeader ''Allow'' ''POST, OPTIONS'' r))
      else (True, r))"

definition elapsedSince :: "Runtime \<Rightarrow> int \<Rightarrow> World \<Rightarrow> int \<times> World" where
  "elapsedSince rt startedAt w =
     (case performance_now rt w of (now, w') \<Rightarrow> (now - startedAt, w'))"

definition hook_of :: "HttpTransport \<Rightarrow> (ServerHooks \<Rightarrow> 'h option) \<Rightarrow> 'h option" where
  "hook_of t sel = (case opt_hooks (options t) of None \<Rightarrow> None | Some h \<Rightarrow> sel h)"

definition recordToolSuccess ::
  "Runtime \<Rightarrow> HttpTransport \<Rightarrow> string \<Rightarrow> json \<Rightarrow> ToolResponseContent list \<Rightarrow> int \<Rightarrow> World
     \<Rightarrow> thrown option \<times> World" where
  "recordToolSuccess rt t toolName rawInput result startedAt w =
     (case elapsedSince rt startedAt w of
        (elapsed, w1) \<Rightarrow>
          invoke (map_option (\<lambda>h. h toolName rawInput result elapsed) (hook_of t onToolCallFinished))
            (ToolCallFinished toolName rawInput result elapsed) w1)"

definition recordToolError ::
  "Runtime \<Rightarrow> HttpTransport \<Rightarrow> string \<Rightarrow> json \<Rightarrow> ErrorOrString \<Rightarrow> int \<Rightarrow> World
     \<Rightarrow> thrown option \<times> World" where
  "recordToolError rt t toolName rawInput err startedAt w =
     (case elapsedSince rt startedAt w of
        (elapsed, w1) \<Rightarrow>
          invoke (map_option (\<lambda>h. h toolName rawInput err elapsed) (hook_of t onToolCallError))
            (ToolCallError toolName rawInput err elapsed) w1)"

definition send :: "(ServerResponse \<Rightarrow> ServerResponse) \<Rightarrow> World \<Rightarrow> World" where
  "send f w = w\<lparr> res := f (res w) \<rparr>"

definition handleInitialize :: "Runtime \<Rightarrow> HttpTransport \<Rightarrow> JsonRpcRequest \<Rightarrow> World \<Rightarrow> unit Outcome \<times> World" where
  "handleInitialize rt t request w =
     (case InitializeParamsSchema_safeParse (rpc_params request) of
        None \<Rightarrow>
          (Done (),
           send (sendJsonRpcProtocolError None ParseError
                   (''Unable to parse RPC request: ''
                      @ zod_message rt ''InitializeParamsSchema'' (rpc_params request))) w)
      | Some d \<Rightarrow>
          (case invoke
                  (map_option (\<lambda>h. h (clientInfo_name d) (clientInfo_version d) (protocolVersion d))
                     (hook_of t onClientConnected))
                  (ClientConnected (clientInfo_name d) (clientInfo_version d) (protocolVersion d)) w of
             (Some e, w1) \<Rightarrow> (Threw e, w1)
           | (None, w1) \<Rightarrow>
               (Done (),
                send (sendJsonRpcResponse (rpc_id request)
                        (InitializeResult (protocolVersion d)
                           (srv_name (mcpServer t)) (srv_version (mcpServer t)))) w1)))"

text \<open>\<open>tools.map(...)\<close> of \<open>handleToolsList\<close>: the first conversion that raises ends it.\<close>

fun toolDefinitions :: "ToolDefinition list \<Rightarrow> thrown + (string \<times> string option \<times> json) list" where
  "toolDefinitions [] = Inr []"
| "toolDefinitions (td # tds) =
     (case zodSchemaToToolSchema (tool_name td) (tool_schema td) of
        Inl e \<Rightarrow> Inl e
      | Inr inputSchema \<Rightarrow>
          (case toolDefinitions tds of
             Inl e \<Rightarrow> Inl e
           | Inr ds \<Rightarrow> Inr ((tool_name td, tool_description td, inputSchema) # ds)))"

definition handleToolsList :: "HttpTransport \<Rightarrow> JsonRpcRequest \<Rightarrow> World \<Rightarrow> unit Outcome \<times> World" where
  "handleToolsList t request w =
     (case invoke (hook_of t onToolsListRequested) ToolsListRequested w of
        (Some e, w1) \<Rightarrow> (Threw e, w1)
      | (None, w1) \<Rightarrow>
          (case toolDefinitions (getTools (mcpServer t)) of
             Inl e \<Rightarrow> (Threw e, w1)
           | Inr ds \<Rightarrow> (Done (), send (sendJsonRpcResponse (rpc_id request) (ToolsListResult ds)) w1)))"

definition parseToolCallParams :: "Runtime \<Rightarrow> JsonRpcRequest \<Rightarrow> World \<Rightarrow> CallToolParams option \<times> World" where
  "parseToolCallParams rt request w =
     (case CallToolParamsSchema_safeParse (rpc_params request) of
        Some d \<Rightarrow> (Some d, w)
      | None \<Rightarrow>
          (None,
           send (sendJsonRpcProtocolError None ParseError
                   (''Unable to parse RPC request: ''
                      @ zod_message rt ''CallToolParamsSchema'' (rpc_params request))) w))"

text \<open>
  \<open>validateToolInput\<close>: \<open>Done None\<close> is the source's \<open>undefined\<close>. It is what a failed
  validation returns after it has answered, and also what a successful parse returns
  when the parsed data is itself \<open>undefined\<close>; \<open>handleToolCall\<close> cannot tell the two apart
  and returns in both cases.
\<close>

definition validateToolInput ::
  "Runtime \<Rightarrow> HttpTransport \<Rightarrow> ToolDefinition \<Rightarrow> string \<Rightarrow> json \<Rightarrow> int \<Rightarrow> JsonRpcId option \<Rightarrow> World
     \<Rightarrow> json option Outcome \<times> World" where
  "validateToolInput rt t td toolName rawInput start requestId w =
     (case safeParse (tool_schema td) rawInput of
        Inr parsedData \<Rightarrow> (Done parsedData, w)
      | Inl err \<Rightarrow>
          (let errorStr = issues_flatten err in
           case recordToolError rt t toolName rawInput (AsString errorStr) start w of
             (Some e, w1) \<Rightarrow> (Threw e, w1)
           | (None, w1) \<Rightarrow>
               (Done None,
                send (sendJsonRpcProtocolError requestId InvalidParams
                        (''Invalid tool arguments: '' @ errorStr)) w1)))"

definition handleToolCall :: "Runtime \<Rightarrow> HttpTransport \<Rightarrow> JsonRpcRequest \<Rightarrow> World \<Rightarrow> unit Outcome \<times> World" where
  "handleToolCall rt t request w =
     (case parseToolCallParams rt request w of
        (None, w1) \<Rightarrow> (Done (), w1)
      | (Some params, w1) \<Rightarrow>
          (let requestId = rpc_id request in
           case getTool (mcpServer t) (call_name params) of
             None \<Rightarrow>
               (Done (),
                send (sendJsonRpcProtocolError requestId InvalidParams
                        (''Tool '' @ [CHR 0x27] @ call_name params @ [CHR 0x27] @ '' not found'')) w1)
           | Some td \<Rightarrow>
               (let rawInput = (case call_arguments params of None \<Rightarrow> JObj [] | Some a \<Rightarrow> a) in
                case performance_now rt w1 of
                  (start, w2) \<Rightarrow>
                    (case validateToolInput rt t td (call_name params) rawInput start requestId w2 of
                       (Threw e, w3) \<Rightarrow> (Threw e, w3)
                     | (Pending, w3) \<Rightarrow> (Pending, w3)
                     | (Done None, w3) \<Rightarrow> (Done (), w3)
                     | (Done (Some parsedInput), w3) \<Rightarrow>
                         (case invoke
                                 (map_option (\<lambda>h. h (call_name params) rawInput)
                                    (hook_of t onToolCallStarted))
                                 (ToolCallStarted (call_name params) rawInput) w3 of
                            (Some e, w4) \<Rightarrow> (Threw e, w4)
                          | (None, w4) \<Rightarrow>
                              (let w5 = w4\<lparr> trace := trace w4 @ [HandlerCalled (call_name params) parsedInput] \<rparr>;
                                   caught = (\<lambda>err w6.
                                     (let responseMessage =
                                            (if instanceof_Error err then message err
                                             else ''Unknown error occurred while calling tool'')
                                      in case recordToolError rt t (call_name params) rawInput
                                                (if instanceof_Error err then AsError err
                                                 else AsString responseMessage) start w6 of
                                           (Some e, w7) \<Rightarrow> (Threw e, w7)
                                         | (None, w7) \<Rightarrow>
                                             (Done (),
                                              send (sendJsonRpcProtocolError requestId InternalError
                                                      responseMessage) w7)))
                               in case tool_handler td parsedInput of
                                    NeverSettles \<Rightarrow> (Pending, w5)
                                  | Raises err \<Rightarrow> caught err w5
                                  | Returns result \<Rightarrow>
                                      (case recordToolSuccess rt t (call_name params) rawInput result start w5 of
                                         (Some err, w6) \<Rightarrow> caught err w6
                                       | (None, w6) \<Rightarrow>
                                           (Done (),
                                            send (sendJsonRpcResponse requestId (ToolCallResult result)) w6))))))))"

text \<open>
  \<open>handleHttpRequest\<close>. \<open>dispatch\<close> is the body of the \<open>try\<close>: beside how it ends it gives
  the value \<open>requestId\<close> has at that moment, which the \<open>catch\<close> reads.
\<close>

definition dispatch ::
  "Runtime \<Rightarrow> HttpTransport \<Rightarrow> IncomingMessage \<Rightarrow> World \<Rightarrow> unit Outcome \<times> JsonRpcId option \<times> World" where
  "dispatch rt t req w =
     (case readRequestBody rt req of
        Inl e \<Rightarrow> (Threw e, None, w)
      | Inr parsedRequest \<Rightarrow>
          (let requestId = rpc_id parsedRequest;
               (out, w1) =
                 (if rpc_method parsedRequest = ''initialize'' then handleInitialize rt t parsedRequest w
                  else if rpc_method parsedRequest = ''tools/list'' then handleToolsList t parsedRequest w
                  else if rpc_method parsedRequest = ''tools/call'' then handleToolCall rt t parsedRequest w
                  else if rpc_method parsedRequest = ''ping''
                  then (Done (), send (sendJsonRpcResponse requestId PingResult) w)
                  else (Done (),
                        send (sendJsonRpcProtocolError requestId MethodNotFound ''Method not found'') w))
           in (out, requestId, w1)))"

definition handleHttpRequest :: "Runtime \<Rightarrow> HttpTransport \<Rightarrow> IncomingMessage \<Rightarrow> World \<Rightarrow> unit Outcome \<times> World" where
  "handleHttpRequest rt t req w =
     (case ensureCors t req (res w) of
        (False, r1) \<Rightarrow> (Done (), w\<lparr> res := r1 \<rparr>)
      | (True, r1) \<Rightarrow>
          (case canHandle t req r1 of
             (False, r2) \<Rightarrow> (Done (), w\<lparr> res := r2 \<rparr>)
           | (True, r2) \<Rightarrow>
               (case dispatch rt t req (w\<lparr> res := r2 \<rparr>) of
                  (Threw (SyntaxError m), requestId, w1) \<Rightarrow>
                    (Done (), send (sendJsonRpcProtocolError requestId ParseError ''Invalid JSON'') w1)
                | (Threw (ZodError m), requestId, w1) \<Rightarrow>
                    (Done (),
                     send (sendJsonRpcProtocolError requestId InvalidParams ''Invalid request format'') w1)
                | (Threw e, requestId, w1) \<Rightarrow>
                    (Done (),
                     send (sendJsonRpcProtocolError requestId InternalError ''Internal server error'') w1)
                | (out, requestId, w1) \<Rightarrow> (out, w1))))"

section \<open>Vocabulary of the statements\<close>

text \<open>
  The request passes the CORS check, is a \<open>POST\<close> to the MCP path, and its body is JSON
  that \<open>JsonRpcRequestSchema\<close> accepts as the envelope \<open>rq\<close>.
\<close>

definition reaches_dispatch :: "HttpTransport \<Rightarrow> IncomingMessage \<Rightarrow> JsonRpcRequest \<Rightarrow> bool" where
  "reaches_dispatch t req rq =
     (fst (ensureCors t req fresh_response) \<and> req_method req = ''POST''
      \<and> Some (requestPath req) = opt_path (options t)
      \<and> (case req_body req of
            ParsedJson j \<Rightarrow> JsonRpcRequestSchema_parse j = Some rq
          | _ \<Rightarrow> False))"

text \<open>The world in which method dispatch starts: the CORS headers are set.\<close>

definition after_cors :: "HttpTransport \<Rightarrow> IncomingMessage \<Rightarrow> World \<Rightarrow> World" where
  "after_cors t req w = w\<lparr> res := snd (ensureCors t req (res w)) \<rparr>"




text \<open>\<open>params.arguments ?? {}\<close>.\<close>

definition rawInput_of :: "CallToolParams \<Rightarrow> json" where
  "rawInput_of params = (case call_arguments params of None \<Rightarrow> JObj [] | Some a \<Rightarrow> a)"

text \<open>What calling a hook slot with \<open>call\<close> gives: nothing happens for an absent hook.\<close>

definition hook_returns :: "thrown option option \<Rightarrow> bool" where
  "hook_returns call = (call = None \<or> call = Some None)"

text \<open>The events a call of a hook slot leaves.\<close>

fun fired :: "'h option \<Rightarrow> Event \<Rightarrow> Event list" where
  "fired None ev = []"
| "fired (Some h) ev = [ev]"

text \<open>The code and the message the \<open>catch\<close> of \<open>handleHttpRequest\<close> answers with.\<close>

fun catch_code :: "thrown \<Rightarrow> int" where
  "catch_code (SyntaxError m) = ParseError"
| "catch_code (ZodError m) = InvalidParams"
| "catch_code e = InternalError"

fun catch_message :: "thrown \<Rightarrow> string" where
  "catch_message (SyntaxError m) = ''Invalid JSON''"
| "catch_message (ZodError m) = ''Invalid request format''"
| "catch_message e = ''Internal server error''"

text \<open>What \<open>handleToolCall\<close> answers with and reports when a handler raises \<open>err\<close>.\<close>

definition responseMessage_of :: "thrown \<Rightarrow> string" where
  "responseMessage_of err =
     (if instanceof_Error err then message err else ''Unknown error occurred while calling tool'')"

definition reported_error :: "thrown \<Rightarrow> ErrorOrString" where
  "reported_error err = (if instanceof_Error err then AsError err else AsString (responseMessage_of err))"

text \<open>The time between the reading that \<open>handleToolCall\<close> takes as \<open>start\<close> in world \<open>w\<close> and
  the next reading.\<close>

definition elapsed_in :: "Runtime \<Rightarrow> World \<Rightarrow> int" where
  "elapsed_in rt w = clock rt (Suc (clock_reads w)) - clock rt (clock_reads w)"

text \<open>The hook slot that \<open>McpServer.tool\<close> calls, and the description it passes.\<close>

definition registered_hook :: "McpServer \<Rightarrow> (string \<Rightarrow> string \<Rightarrow> thrown option) option" where
  "registered_hook s = (case srv_hooks s of None \<Rightarrow> None | Some h \<Rightarrow> onToolRegistered h)"

definition description_of :: "ToolDefinition \<Rightarrow> string" where
  "description_of t = (case tool_description t of None \<Rightarrow> [] | Some d \<Rightarrow> d)"

definition duplicate_error :: "string \<Rightarrow> thrown" where
  "duplicate_error name = OtherError (''Tool '' @ [CHR 0x27] @ name @ [CHR 0x27] @ '' is already registered'')"

text \<open>Whether a \<open>$ref\<close> key occurs anywhere in a document.\<close>

fun has_ref :: "json \<Rightarrow> bool"
  and has_ref_list :: "json list \<Rightarrow> bool"
  and has_ref_props :: "(string \<times> json) list \<Rightarrow> bool" where
  "has_ref (JObj ps) = has_ref_props ps"
| "has_ref (JArr xs) = has_ref_list xs"
| "has_ref _ = False"
| "has_ref_list [] = False"
| "has_ref_list (x # xs) = (has_ref x \<or> has_ref_list xs)"
| "has_ref_props [] = False"
| "has_ref_props (p # ps) = (fst p = ''$ref'' \<or> has_ref (snd p) \<or> has_ref_props ps)"

text \<open>
  A wrapper that points at a definition: an object with a string \<open>$ref\<close> and with \<open>definitions\<close>, whose
  \<open>$ref\<close>, once \<open>#/definitions/\<close> is removed, names a member of \<open>definitions\<close> that is an
  object. \<open>wrapper_target\<close> is that member.
\<close>

definition wrapper_target :: "json \<Rightarrow> json option" where
  "wrapper_target schema =
     (case schema of
        JObj ps \<Rightarrow>
          (case (map_of ps ''$ref'', map_of ps ''definitions'') of
             (Some (JStr ref), Some definitions) \<Rightarrow>
               (case get_member definitions (remove_first ''#/definitions/'' ref) of
                  Some v \<Rightarrow> if is_object v then Some v else None
                | None \<Rightarrow> None)
           | _ \<Rightarrow> None)
      | _ \<Rightarrow> None)"

text \<open>A JSON Schema document has a string for \<open>$ref\<close>, where it has one.\<close>

definition ref_is_string :: "json \<Rightarrow> bool" where
  "ref_is_string schema =
     (case schema of
        JObj ps \<Rightarrow> (case map_of ps ''$ref'' of Some (JStr _) \<Rightarrow> True | Some _ \<Rightarrow> False | None \<Rightarrow> True)
      | _ \<Rightarrow> True)"

section \<open>A sample server\<close>

text \<open>
  A concrete runtime, three tools, hooks and requests, on which the theorems below are run.
\<close>

definition demo_runtime :: Runtime where
  "demo_runtime = \<lparr> clock = (\<lambda>k. 1000 + 7 * int k), zod_message = (\<lambda>schema params. ''invalid input'') \<rparr>"

definition echo_definition :: json where
  "echo_definition =
     JObj [(''type'', JStr ''object''),
           (''properties'', JObj [(''text'', JObj [(''type'', JStr ''string'')])]),
           (''required'', JArr [JStr ''text''])]"

definition echo_schema :: ZodSchema where
  "echo_schema =
     \<lparr> safeParse = (\<lambda>v. case get_member v ''text'' of
                          Some (JStr s) \<Rightarrow> Inr (Some (JObj [(''text'', JStr s)]))
                        | _ \<Rightarrow> Inl \<lparr> issues_message = ''text: Required'',
                                     issues_flatten = ''fieldErrors: text: Required'' \<rparr>),
       toJsonSchema = (\<lambda>name.
         JObj [(''$schema'', JStr ''http://json-schema.org/draft-07/schema#''),
               (''$ref'', JStr (''#/definitions/'' @ name)),
               (''definitions'', JObj [(name, echo_definition)])]) \<rparr>"

definition echo_tool :: ToolDefinition where
  "echo_tool =
     \<lparr> tool_name = ''echo'', tool_description = Some ''Echo the provided text'',
       tool_schema = echo_schema,
       tool_handler = (\<lambda>input. case get_member input ''text'' of
                                  Some (JStr s) \<Rightarrow> Returns [TextContent s]
                                | _ \<Rightarrow> Raises (OtherError ''no text'')) \<rparr>"

definition failing_tool :: ToolDefinition where
  "failing_tool =
     \<lparr> tool_name = ''explode'', tool_description = None, tool_schema = echo_schema,
       tool_handler = (\<lambda>input. Raises (OtherError ''boom'')) \<rparr>"

text \<open>A second definition under the name of \<open>echo_tool\<close>.\<close>

definition echo_again :: ToolDefinition where
  "echo_again = echo_tool\<lparr> tool_description := Some ''Another echo'' \<rparr>"

text \<open>A tool whose schema accepts every input and parses it to \<open>undefined\<close>.\<close>

definition void_tool :: ToolDefinition where
  "void_tool =
     \<lparr> tool_name = ''void'', tool_description = None,
       tool_schema = \<lparr> safeParse = (\<lambda>v. Inr None), toJsonSchema = (\<lambda>name. JObj []) \<rparr>,
       tool_handler = (\<lambda>input. Returns []) \<rparr>"

definition empty_server :: McpServer where
  "empty_server =
     \<lparr> srv_name = ''demo'', srv_version = ''1.0.0'', srv_tools = [], srv_endpoints = [],
       srv_hooks = None, srv_started = False \<rparr>"

definition demo_server :: McpServer where
  "demo_server =
     empty_server\<lparr> srv_tools := [(''echo'', echo_tool), (''explode'', failing_tool),
                                   (''void'', void_tool)] \<rparr>"

text \<open>Hooks that all return, hooks whose \<open>onToolCallFinished\<close> raises, and hooks whose
  \<open>onToolCallError\<close> raises.\<close>

definition quiet_hooks :: ServerHooks where
  "quiet_hooks =
     \<lparr> onClientConnected = Some (\<lambda>n v p. None), onToolRegistered = Some (\<lambda>n d. None),
       onToolCallStarted = Some (\<lambda>n i. None), onToolCallFinished = Some (\<lambda>n i r e. None),
       onToolCallError = Some (\<lambda>n i err e. None), onToolsListRequested = Some None,
       onServerError = None \<rparr>"

definition finished_raises :: ServerHooks where
  "finished_raises = quiet_hooks\<lparr> onToolCallFinished := Some (\<lambda>n i r e. Some (OtherError ''hook failed'')) \<rparr>"

definition error_raises :: ServerHooks where
  "error_raises = quiet_hooks\<lparr> onToolCallError := Some (\<lambda>n i err e. Some (OtherError ''hook failed'')) \<rparr>"

text \<open>A server with hooks and no tool yet.\<close>

definition observed_server :: McpServer where
  "observed_server = empty_server\<lparr> srv_hooks := Some quiet_hooks \<rparr>"

definition transport_with :: "ServerHooks \<Rightarrow> AllowedOrigins option \<Rightarrow> HttpTransport" where
  "transport_with h origins =
     new_HttpTransport demo_server
       (Some \<lparr> opt_path = None, opt_hooks = Some h, opt_allowedOrigins = origins,
               opt_customRoutes = None \<rparr>)"

definition demo_transport :: HttpTransport where
  "demo_transport = transport_with quiet_hooks None"

text \<open>A transport with an allow-list.\<close>

definition strict_transport :: HttpTransport where
  "strict_transport = transport_with quiet_hooks (Some (Origins [''https://good.example'']))"

text \<open>Requests: a \<open>POST\<close> to the MCP path with a given body, and the envelopes that
  \<open>JsonRpcRequestSchema\<close> reads from the bodies.\<close>

definition post_mcp :: "RequestBody \<Rightarrow> IncomingMessage" where
  "post_mcp body =
     \<lparr> req_method = ''POST'', req_url = Some ''/mcp'', req_origin = None,
       req_access_control_request_headers = Absent, req_body = body \<rparr>"

definition rpc :: "double \<Rightarrow> string \<Rightarrow> json \<Rightarrow> json" where
  "rpc i m params =
     JObj [(''jsonrpc'', JStr ''2.0''), (''id'', JNum i), (''method'', JStr m), (''params'', params)]"

text \<open>A \<open>ping\<close> sent with a given \<open>Origin\<close> header.\<close>

definition ping_from :: "string option \<Rightarrow> IncomingMessage" where
  "ping_from origin = (post_mcp (ParsedJson (rpc double_one ''ping'' (JObj []))))\<lparr> req_origin := origin \<rparr>"

definition call_echo :: "json \<Rightarrow> IncomingMessage" where
  "call_echo arguments =
     post_mcp (ParsedJson (rpc double_one ''tools/call'' (JObj [(''name'', JStr ''echo''), (''arguments'', arguments)])))"

definition echo_rq :: "json \<Rightarrow> JsonRpcRequest" where
  "echo_rq arguments =
     \<lparr> rpc_id = Some (IdNumber double_one), rpc_method = ''tools/call'',
       rpc_params = Some (JObj [(''name'', JStr ''echo''), (''arguments'', arguments)]) \<rparr>"

definition void_rq :: JsonRpcRequest where
  "void_rq =
     \<lparr> rpc_id = Some (IdNumber double_one), rpc_method = ''tools/call'',
       rpc_params = Some (JObj [(''name'', JStr ''void'')]) \<rparr>"

definition call_void :: IncomingMessage where
  "call_void = post_mcp (ParsedJson (rpc double_one ''tools/call'' (JObj [(''name'', JStr ''void'')])))"

definition call_explode :: IncomingMessage where
  "call_explode =
     post_mcp (ParsedJson (rpc double_one ''tools/call''
       (JObj [(''name'', JStr ''explode''), (''arguments'', JObj [(''text'', JStr ''hi'')])])))"

definition explode_rq :: JsonRpcRequest where
  "explode_rq =
     \<lparr> rpc_id = Some (IdNumber double_one), rpc_method = ''tools/call'',
       rpc_params = Some (JObj [(''name'', JStr ''explode''),
                                (''arguments'', JObj [(''text'', JStr ''hi'')])]) \<rparr>"

definition ghost_call :: IncomingMessage where
  "ghost_call = post_mcp (ParsedJson (rpc double_one ''tools/call'' (JObj [(''name'', JStr ''ghost'')])))"

definition ghost_rq :: JsonRpcRequest where
  "ghost_rq =
     \<lparr> rpc_id = Some (IdNumber double_one), rpc_method = ''tools/call'',
       rpc_params = Some (JObj [(''name'', JStr ''ghost'')]) \<rparr>"

definition init_params :: json where
  "init_params =
     JObj [(''protocolVersion'', JStr ''2025-03-26''),
           (''clientInfo'', JObj [(''name'', JStr ''inspector''), (''version'', JStr ''0.1'')])]"

definition init_call :: "json \<Rightarrow> IncomingMessage" where
  "init_call params = post_mcp (ParsedJson (rpc double_one ''initialize'' params))"

definition init_rq :: "json \<Rightarrow> JsonRpcRequest" where
  "init_rq params =
     \<lparr> rpc_id = Some (IdNumber double_one), rpc_method = ''initialize'', rpc_params = Some params \<rparr>"

text \<open>An envelope with the wrong protocol version, and with an id that could be read.\<close>

definition bad_envelope :: json where
  "bad_envelope = JObj [(''jsonrpc'', JStr ''1.0''), (''id'', JNum double_one), (''method'', JStr ''ping'')]"

text \<open>A server with one custom route, and the transport that \<open>McpServer.start\<close> builds
  for it.\<close>

definition health_handler :: RouteHandler where
  "health_handler req r = writeHead_end 200 (Some ''text/plain'') (PlainText ''healthy'') r"

definition health_server :: McpServer where
  "health_server = empty_server\<lparr> srv_endpoints := [(''/health'', [(GET, health_handler)])] \<rparr>"

definition health_transport :: HttpTransport where
  "health_transport =
     \<lparr> options =
         \<lparr> opt_path = Some ''/mcp'', opt_hooks = Some no_hooks, opt_allowedOrigins = Some Wildcard,
           opt_customRoutes = Some [(''/health'', [(GET, health_handler)])] \<rparr>,
       mcpServer = health_server\<lparr> srv_started := True \<rparr>,
       allowedOrigins = Wildcard \<rparr>"

definition get_health :: IncomingMessage where
  "get_health =
     \<lparr> req_method = ''GET'', req_url = Some ''/health'', req_origin = None,
       req_access_control_request_headers = Absent, req_body = MalformedJson [] \<rparr>"

text \<open>A recursive schema as the conversion renders it: the definition refers to itself.\<close>

definition tree_definition :: json where
  "tree_definition =
     JObj [(''type'', JStr ''object''),
           (''properties'',
            JObj [(''label'', JObj [(''type'', JStr ''string'')]),
                  (''children'',
                   JObj [(''type'', JStr ''array''),
                         (''items'', JObj [(''$ref'', JStr ''#/definitions/tree'')])])])]"

definition tree_schema :: ZodSchema where
  "tree_schema =
     \<lparr> safeParse = (\<lambda>v. Inr (Some v)),
       toJsonSchema = (\<lambda>name.
         JObj [(''$schema'', JStr ''http://json-schema.org/draft-07/schema#''),
               (''$ref'', JStr (''#/definitions/'' @ name)),
               (''definitions'', JObj [(name, tree_definition)])]) \<rparr>"

text \<open>A schema whose conversion is no wrapper.\<close>

definition plain_schema :: ZodSchema where
  "plain_schema = \<lparr> safeParse = (\<lambda>v. Inr (Some v)), toJsonSchema = (\<lambda>name. echo_definition) \<rparr>"

section \<open>Auxiliary facts\<close>

lemma double_one_simps [simp]:
  "\<not> is_NaN double_one" "is_finite double_one" "\<not> is_zero double_one"
  by (simp_all add: is_NaN_def is_finite_def is_zero_def double_one_def)

lemma plus_infinity_simps [simp]:
  "\<not> is_NaN plus_infinity" "\<not> is_finite plus_infinity"
  by (simp_all add: is_NaN_def is_finite_def plus_infinity_def)

lemma remove_first_prefix: "pat \<noteq> [] \<Longrightarrow> remove_first pat (pat @ s) = s"
  by (cases pat) auto

lemma World_upd_comm [simp]:
  "w\<lparr> clock_reads := c, trace := tr \<rparr> = w\<lparr> trace := tr, clock_reads := c \<rparr>"
  by simp

lemma ensureCors_fst: "fst (ensureCors t req r) = fst (ensureCors t req r')"
  by (auto simp: ensureCors_def Let_def split: AllowedOrigins.splits option.splits)

lemma ensureCors_pass_writes:
  "fst (ensureCors t req r) \<Longrightarrow> res_writes (snd (ensureCors t req r)) = res_writes r"
  by (auto simp: ensureCors_def Let_def setHeader_def split: AllowedOrigins.splits option.splits if_splits)

lemma canHandle_post:
  "req_method req = ''POST'' \<Longrightarrow> Some (requestPath req) = opt_path (options t)
     \<Longrightarrow> canHandle t req r = (True, r)"
  by (simp add: canHandle_def)

lemma send_writes:
  "res_writes (res (send (writeHead_end st ct b) w)) = res_writes (res w) @ [(st, b)]"
  by (simp add: send_def writeHead_end_def)

lemma send_error_writes [simp]:
  "res_writes (res (send (sendJsonRpcProtocolError i c m) w))
     = res_writes (res w) @ [(200, JsonRpcError i c m)]"
  by (simp add: send_def sendJsonRpcProtocolError_def writeHead_end_def HTTP_OK_def)

lemma send_response_writes [simp]:
  "res_writes (res (send (sendJsonRpcResponse i r) w))
     = res_writes (res w) @ [(200, JsonRpcResult i r)]"
  by (simp add: send_def sendJsonRpcResponse_def writeHead_end_def HTTP_OK_def)

lemma send_trace [simp]: "trace (send f w) = trace w"
  by (simp add: send_def)

lemma send_clock_reads [simp]: "clock_reads (send f w) = clock_reads w"
  by (simp add: send_def)

lemma after_cors_trace [simp]: "trace (after_cors t req w) = trace w"
  by (simp add: after_cors_def)

lemma after_cors_clock_reads [simp]: "clock_reads (after_cors t req w) = clock_reads w"
  by (simp add: after_cors_def)

lemma elapsed_in_after_cors [simp]: "elapsed_in rt (after_cors t req w) = elapsed_in rt w"
  by (simp add: elapsed_in_def)

lemma after_cors_writes:
  assumes "reaches_dispatch t req rq"
  shows "res_writes (res (after_cors t req w)) = res_writes (res w)"
proof -
  from assms have "fst (ensureCors t req fresh_response)"
    by (simp add: reaches_dispatch_def)
  then have "fst (ensureCors t req (res w))"
    using ensureCors_fst by metis
  then show ?thesis
    by (simp add: after_cors_def ensureCors_pass_writes)
qed

text \<open>Once a request reaches method dispatch, the rest of \<open>handleHttpRequest\<close> is the
  \<open>switch\<close> under the \<open>catch\<close>.\<close>

lemma handleHttpRequest_reaches:
  assumes "reaches_dispatch t req rq"
  shows "handleHttpRequest rt t req w =
    (case (if rpc_method rq = ''initialize'' then handleInitialize rt t rq (after_cors t req w)
           else if rpc_method rq = ''tools/list'' then handleToolsList t rq (after_cors t req w)
           else if rpc_method rq = ''tools/call'' then handleToolCall rt t rq (after_cors t req w)
           else if rpc_method rq = ''ping''
           then (Done (), send (sendJsonRpcResponse (rpc_id rq) PingResult) (after_cors t req w))
           else (Done (), send (sendJsonRpcProtocolError (rpc_id rq) MethodNotFound ''Method not found'')
                   (after_cors t req w))) of
       (Threw e, w1) \<Rightarrow>
         (Done (), send (sendJsonRpcProtocolError (rpc_id rq) (catch_code e) (catch_message e)) w1)
     | (out, w1) \<Rightarrow> (out, w1))"
proof -
  from assms obtain j where b: "req_body req = ParsedJson j"
    and p: "JsonRpcRequestSchema_parse j = Some rq"
    and m: "req_method req = ''POST''" and pa: "Some (requestPath req) = opt_path (options t)"
    and c: "fst (ensureCors t req fresh_response)"
    by (auto simp: reaches_dispatch_def split: RequestBody.splits)
  from c have "fst (ensureCors t req (res w))"
    using ensureCors_fst by metis
  then have e: "ensureCors t req (res w) = (True, snd (ensureCors t req (res w)))"
    by (cases "ensureCors t req (res w)") simp
  have d: "readRequestBody rt req = Inr rq"
    using b p by (simp add: readRequestBody_def)
  show ?thesis
    unfolding handleHttpRequest_def
    apply (subst e)
    apply (simp add: canHandle_post[OF m pa] dispatch_def d after_cors_def Let_def
         split: prod.splits Outcome.splits thrown.splits)
    done
qed

lemma handleHttpRequest_tools_call:
  assumes "reaches_dispatch t req rq" and "rpc_method rq = ''tools/call''"
  shows "handleHttpRequest rt t req w =
    (case handleToolCall rt t rq (after_cors t req w) of
       (Threw e, w1) \<Rightarrow>
         (Done (), send (sendJsonRpcProtocolError (rpc_id rq) (catch_code e) (catch_message e)) w1)
     | (out, w1) \<Rightarrow> (out, w1))"
  using assms(2) by (simp add: handleHttpRequest_reaches[OF assms(1)])

lemma recordToolError_unfold:
  "recordToolError rt t n raw e st w =
     (case map_option (\<lambda>h. h n raw e (clock rt (clock_reads w) - st)) (hook_of t onToolCallError) of
        None \<Rightarrow> (None, w\<lparr> clock_reads := Suc (clock_reads w) \<rparr>)
      | Some r \<Rightarrow> (r, w\<lparr> trace := trace w @ [ToolCallError n raw e (clock rt (clock_reads w) - st)],
                         clock_reads := Suc (clock_reads w) \<rparr>))"
  by (simp add: recordToolError_def elapsedSince_def performance_now_def split: option.splits)

lemma recordToolSuccess_unfold:
  "recordToolSuccess rt t n raw e st w =
     (case map_option (\<lambda>h. h n raw e (clock rt (clock_reads w) - st)) (hook_of t onToolCallFinished) of
        None \<Rightarrow> (None, w\<lparr> clock_reads := Suc (clock_reads w) \<rparr>)
      | Some r \<Rightarrow> (r, w\<lparr> trace := trace w @ [ToolCallFinished n raw e (clock rt (clock_reads w) - st)],
                         clock_reads := Suc (clock_reads w) \<rparr>))"
  by (simp add: recordToolSuccess_def elapsedSince_def performance_now_def split: option.splits)

lemma handleToolCall_absent:
  assumes "CallToolParamsSchema_safeParse (rpc_params rq) = Some p"
    and "getTool (mcpServer t) (call_name p) = None"
  shows "handleToolCall rt t rq w =
     (Done (), send (sendJsonRpcProtocolError (rpc_id rq) InvalidParams
                    (''Tool '' @ [CHR 0x27] @ call_name p @ [CHR 0x27] @ '' not found'')) w)"
  using assms by (simp add: handleToolCall_def parseToolCallParams_def)

lemma handleToolCall_invalid:
  assumes "CallToolParamsSchema_safeParse (rpc_params rq) = Some p"
    and "getTool (mcpServer t) (call_name p) = Some td"
    and "safeParse (tool_schema td) (rawInput_of p) = Inl err"
  shows "handleToolCall rt t rq w =
     (let ev = ToolCallError (call_name p) (rawInput_of p) (AsString (issues_flatten err)) (elapsed_in rt w);
          w1 = w\<lparr> trace := trace w @ fired (hook_of t onToolCallError) ev,
                  clock_reads := Suc (Suc (clock_reads w)) \<rparr>
      in case map_option (\<lambda>h. h (call_name p) (rawInput_of p) (AsString (issues_flatten err)) (elapsed_in rt w))
                (hook_of t onToolCallError) of
           Some (Some e) \<Rightarrow> (Threw e, w1)
         | _ \<Rightarrow> (Done (), send (sendJsonRpcProtocolError (rpc_id rq) InvalidParams
                                  (''Invalid tool arguments: '' @ issues_flatten err)) w1))"
  using assms
  by (simp add: handleToolCall_def parseToolCallParams_def validateToolInput_def
      recordToolError_unfold performance_now_def rawInput_of_def elapsed_in_def Let_def
      split: option.splits)

lemma handleToolCall_raises:
  assumes "CallToolParamsSchema_safeParse (rpc_params rq) = Some p"
    and "getTool (mcpServer t) (call_name p) = Some td"
    and "safeParse (tool_schema td) (rawInput_of p) = Inr (Some input)"
    and "hook_returns (map_option (\<lambda>h. h (call_name p) (rawInput_of p)) (hook_of t onToolCallStarted))"
    and "tool_handler td input = Raises err"
  shows "handleToolCall rt t rq w =
     (let ev = ToolCallError (call_name p) (rawInput_of p) (reported_error err) (elapsed_in rt w);
          w1 = w\<lparr> trace := trace w
                    @ fired (hook_of t onToolCallStarted) (ToolCallStarted (call_name p) (rawInput_of p))
                    @ [HandlerCalled (call_name p) input]
                    @ fired (hook_of t onToolCallError) ev,
                  clock_reads := Suc (Suc (clock_reads w)) \<rparr>
      in case map_option (\<lambda>h. h (call_name p) (rawInput_of p) (reported_error err) (elapsed_in rt w))
                (hook_of t onToolCallError) of
           Some (Some e) \<Rightarrow> (Threw e, w1)
         | _ \<Rightarrow> (Done (), send (sendJsonRpcProtocolError (rpc_id rq) InternalError
                                  (responseMessage_of err)) w1))"
  using assms
  by (cases "hook_of t onToolCallStarted"; cases "hook_of t onToolCallError")
     (auto simp: handleToolCall_def parseToolCallParams_def validateToolInput_def
      recordToolError_unfold performance_now_def rawInput_of_def elapsed_in_def Let_def
      hook_returns_def reported_error_def responseMessage_of_def
      split: option.splits)

lemma handleToolCall_returns:
  assumes "CallToolParamsSchema_safeParse (rpc_params rq) = Some p"
    and "getTool (mcpServer t) (call_name p) = Some td"
    and "safeParse (tool_schema td) (rawInput_of p) = Inr (Some input)"
    and "hook_returns (map_option (\<lambda>h. h (call_name p) (rawInput_of p)) (hook_of t onToolCallStarted))"
    and "tool_handler td input = Returns result"
    and "hook_returns (map_option (\<lambda>h. h (call_name p) (rawInput_of p) result (elapsed_in rt w))
                         (hook_of t onToolCallFinished))"
  shows "handleToolCall rt t rq w =
     (Done (),
      send (sendJsonRpcResponse (rpc_id rq) (ToolCallResult result))
        (w\<lparr> trace := trace w
              @ fired (hook_of t onToolCallStarted) (ToolCallStarted (call_name p) (rawInput_of p))
              @ [HandlerCalled (call_name p) input]
              @ fired (hook_of t onToolCallFinished)
                  (ToolCallFinished (call_name p) (rawInput_of p) result (elapsed_in rt w)),
            clock_reads := Suc (Suc (clock_reads w)) \<rparr>))"
  using assms
  by (cases "hook_of t onToolCallStarted"; cases "hook_of t onToolCallFinished")
     (auto simp: handleToolCall_def parseToolCallParams_def validateToolInput_def
      recordToolSuccess_unfold performance_now_def rawInput_of_def elapsed_in_def Let_def
      hook_returns_def
      split: option.splits)

text \<open>The sample server, unfolded.\<close>

lemmas demo_defs =
  demo_transport_def transport_with_def new_HttpTransport_def spread_options_def
  DEFAULT_HTTP_TRANSPORT_OPTIONS_def normalizeAllowedOrigins_def demo_server_def empty_server_def
  post_mcp_def rpc_def call_echo_def call_explode_def ghost_call_def echo_rq_def explode_rq_def
  init_params_def init_rq_def init_call_def bad_envelope_def strict_transport_def ping_from_def
  void_tool_def void_rq_def call_void_def
  health_server_def health_transport_def get_health_def no_hooks_def observed_server_def
  ghost_rq_def echo_tool_def failing_tool_def echo_schema_def quiet_hooks_def finished_raises_def
  error_raises_def demo_runtime_def fresh_world_def fresh_response_def hook_of_def Let_def

lemmas request_defs =
  reaches_dispatch_def ensureCors_def requestPath_def JsonRpcRequestSchema_parse_def
  CallToolParamsSchema_safeParse_def InitializeParamsSchema_safeParse_def getTool_def
  rawInput_of_def hook_returns_def elapsed_in_def

lemmas run_defs =
  handleHttpRequest_def canHandle_def dispatch_def readRequestBody_def handleToolCall_def
  parseToolCallParams_def validateToolInput_def recordToolError_def recordToolSuccess_def
  elapsedSince_def performance_now_def handleInitialize_def handleToolsList_def send_def
  sendJsonRpcProtocolError_def sendJsonRpcResponse_def sendError_def writeHead_end_def
  setHeader_def HTTP_OK_def ParseError_def InvalidParams_def InternalError_def MethodNotFound_def

section \<open>Properties\<close>

text \<open>
  C6. A \<open>tools/call\<close> that names a tool absent from the registry is answered with
  \<open>InvalidParams\<close> (-32602) and the message \<open>Tool '<name>' not found\<close>; no hook and no
  handler is called: the trace of the run is unchanged.
\<close>

theorem unknown_tool_invalid_params:
  assumes "reaches_dispatch t req rq" and "rpc_method rq = ''tools/call''"
    and "CallToolParamsSchema_safeParse (rpc_params rq) = Some p"
    and "getTool (mcpServer t) (call_name p) = None"
  shows "(case handleHttpRequest rt t req w of
            (out, w') \<Rightarrow>
              out = Done ()
              \<and> res_writes (res w') = res_writes (res w)
                    @ [(200, JsonRpcError (rpc_id rq) (- 32602)
                               (''Tool '' @ [CHR 0x27] @ call_name p @ [CHR 0x27] @ '' not found''))]
              \<and> trace w' = trace w)"
  by (simp add: handleHttpRequest_tools_call[OF assms(1,2)] handleToolCall_absent[OF assms(3,4)]
      after_cors_writes[OF assms(1)] InvalidParams_def)

theorem unknown_tool_invalid_params_witness:
  "reaches_dispatch demo_transport ghost_call ghost_rq
   \<and> rpc_method ghost_rq = ''tools/call''
   \<and> CallToolParamsSchema_safeParse (rpc_params ghost_rq)
        = Some \<lparr> call_name = ''ghost'', call_arguments = None \<rparr>
   \<and> getTool (mcpServer demo_transport) ''ghost'' = None
   \<and> (case handleHttpRequest demo_runtime demo_transport ghost_call fresh_world of
         (out, w') \<Rightarrow>
           out = Done ()
           \<and> res_writes (res w')
               = [(200, JsonRpcError (Some (IdNumber double_one)) (- 32602)
                          (''Tool '' @ [CHR 0x27] @ ''ghost'' @ [CHR 0x27] @ '' not found''))]
           \<and> trace w' = [])"
proof -
  have h1: "reaches_dispatch demo_transport ghost_call ghost_rq"
    by (simp add: reaches_dispatch_def demo_transport_def transport_with_def new_HttpTransport_def
        spread_options_def DEFAULT_HTTP_TRANSPORT_OPTIONS_def normalizeAllowedOrigins_def
        ensureCors_def ghost_call_def post_mcp_def requestPath_def rpc_def ghost_rq_def
        JsonRpcRequestSchema_parse_def)
  have h2: "rpc_method ghost_rq = ''tools/call''"
    by (simp add: ghost_rq_def)
  have h3: "CallToolParamsSchema_safeParse (rpc_params ghost_rq)
              = Some \<lparr> call_name = ''ghost'', call_arguments = None \<rparr>"
    by (simp add: ghost_rq_def CallToolParamsSchema_safeParse_def)
  have h4: "getTool (mcpServer demo_transport)
              (call_name \<lparr> call_name = ''ghost'', call_arguments = None \<rparr>) = None"
    by (simp add: getTool_def demo_transport_def transport_with_def new_HttpTransport_def
        demo_server_def empty_server_def Let_def)
  have c: "(case handleHttpRequest demo_runtime demo_transport ghost_call fresh_world of
         (out, w') \<Rightarrow>
           out = Done ()
           \<and> res_writes (res w')
               = [(200, JsonRpcError (Some (IdNumber double_one)) (- 32602)
                          (''Tool '' @ [CHR 0x27] @ ''ghost'' @ [CHR 0x27] @ '' not found''))]
           \<and> trace w' = [])"
    using unknown_tool_invalid_params[OF h1 h2 h3 h4, where rt = demo_runtime and w = fresh_world]
    by (simp add: fresh_world_def fresh_response_def ghost_rq_def)
  from h1 h2 h3 h4 c show ?thesis
    by simp
qed

text \<open>
  C5, as the code has it. When the arguments of a \<open>tools/call\<close> fail the schema of the
  named tool, the run calls \<open>onToolCallError\<close> (where configured) with the serialised
  diagnostics and the time elapsed since the start timestamp, and calls neither
  \<open>onToolCallStarted\<close> nor the handler, whatever the hook does. If the hook returns (or is
  not configured), the answer is \<open>InvalidParams\<close> (-32602) with the diagnostics in the
  message.
\<close>

theorem invalid_arguments_rejected:
  assumes "reaches_dispatch t req rq" and "rpc_method rq = ''tools/call''"
    and "CallToolParamsSchema_safeParse (rpc_params rq) = Some p"
    and "getTool (mcpServer t) (call_name p) = Some td"
    and "safeParse (tool_schema td) (rawInput_of p) = Inl err"
  shows "(case handleHttpRequest rt t req w of
            (out, w') \<Rightarrow>
              out = Done ()
              \<and> trace w' = trace w
                    @ fired (hook_of t onToolCallError)
                        (ToolCallError (call_name p) (rawInput_of p) (AsString (issues_flatten err))
                           (elapsed_in rt w))
              \<and> (hook_returns
                     (map_option (\<lambda>h. h (call_name p) (rawInput_of p) (AsString (issues_flatten err))
                                        (elapsed_in rt w))
                        (hook_of t onToolCallError))
                   \<longrightarrow> res_writes (res w') = res_writes (res w)
                         @ [(200, JsonRpcError (rpc_id rq) (- 32602)
                                    (''Invalid tool arguments: '' @ issues_flatten err))]))"
proof -
  note H = handleHttpRequest_tools_call[OF assms(1,2)]
  note T = handleToolCall_invalid[OF assms(3,4,5), where rt = rt and w = "after_cors t req w"]
  show ?thesis
  proof (cases "hook_of t onToolCallError")
    case None
    then show ?thesis
      by (simp add: H T Let_def InvalidParams_def after_cors_writes[OF assms(1)] hook_returns_def)
  next
    case (Some h)
    then show ?thesis
      by (cases "h (call_name p) (rawInput_of p) (AsString (issues_flatten err)) (elapsed_in rt w)")
         (simp_all add: H T Let_def InvalidParams_def after_cors_writes[OF assms(1)] hook_returns_def)
  qed
qed

theorem invalid_arguments_rejected_witness:
  "reaches_dispatch demo_transport (call_echo (JObj [])) (echo_rq (JObj []))
   \<and> rpc_method (echo_rq (JObj [])) = ''tools/call''
   \<and> CallToolParamsSchema_safeParse (rpc_params (echo_rq (JObj [])))
        = Some \<lparr> call_name = ''echo'', call_arguments = Some (JObj []) \<rparr>
   \<and> getTool (mcpServer demo_transport) ''echo'' = Some echo_tool
   \<and> safeParse (tool_schema echo_tool) (JObj [])
        = Inl \<lparr> issues_message = ''text: Required'', issues_flatten = ''fieldErrors: text: Required'' \<rparr>
   \<and> hook_returns (map_option (\<lambda>h. h ''echo'' (JObj []) (AsString ''fieldErrors: text: Required'') 7)
                      (hook_of demo_transport onToolCallError))
   \<and> fst (handleHttpRequest demo_runtime demo_transport (call_echo (JObj [])) fresh_world) = Done ()
   \<and> res_writes (res (snd (handleHttpRequest demo_runtime demo_transport (call_echo (JObj [])) fresh_world)))
        = [(200, JsonRpcError (Some (IdNumber double_one)) (- 32602)
                   ''Invalid tool arguments: fieldErrors: text: Required'')]
   \<and> trace (snd (handleHttpRequest demo_runtime demo_transport (call_echo (JObj [])) fresh_world))
        = [ToolCallError ''echo'' (JObj []) (AsString ''fieldErrors: text: Required'') 7]"
proof -
  let ?p = "\<lparr> call_name = ''echo'', call_arguments = Some (JObj []) \<rparr>"
  let ?err = "\<lparr> issues_message = ''text: Required'', issues_flatten = ''fieldErrors: text: Required'' \<rparr>"
  have h1: "reaches_dispatch demo_transport (call_echo (JObj [])) (echo_rq (JObj []))"
    by (simp add: demo_defs request_defs)
  have h2: "rpc_method (echo_rq (JObj [])) = ''tools/call''"
    by (simp add: echo_rq_def)
  have h3: "CallToolParamsSchema_safeParse (rpc_params (echo_rq (JObj []))) = Some ?p"
    by (simp add: echo_rq_def CallToolParamsSchema_safeParse_def)
  have h4: "getTool (mcpServer demo_transport) (call_name ?p) = Some echo_tool"
    by (simp add: demo_defs request_defs)
  have h5: "safeParse (tool_schema echo_tool) (rawInput_of ?p) = Inl ?err"
    by (simp add: demo_defs request_defs)
  have h6: "hook_returns (map_option (\<lambda>h. h (call_name ?p) (rawInput_of ?p) (AsString (issues_flatten ?err))
                                         (elapsed_in demo_runtime fresh_world))
                         (hook_of demo_transport onToolCallError))"
    by (simp add: demo_defs request_defs)
  from invalid_arguments_rejected[OF h1 h2 h3 h4 h5, where rt = demo_runtime and w = fresh_world] h6
  have c: "fst (handleHttpRequest demo_runtime demo_transport (call_echo (JObj [])) fresh_world) = Done ()
   \<and> res_writes (res (snd (handleHttpRequest demo_runtime demo_transport (call_echo (JObj [])) fresh_world)))
        = [(200, JsonRpcError (Some (IdNumber double_one)) (- 32602)
                   ''Invalid tool arguments: fieldErrors: text: Required'')]
   \<and> trace (snd (handleHttpRequest demo_runtime demo_transport (call_echo (JObj [])) fresh_world))
        = [ToolCallError ''echo'' (JObj []) (AsString ''fieldErrors: text: Required'') 7]"
    by (simp add: demo_defs request_defs split: prod.splits)
  from h1 h2 h3 h4 h5 h6 c show ?thesis
    by (simp add: demo_defs request_defs)
qed

text \<open>
  C5 as stated fails: a hook is not guarded, so when \<open>onToolCallError\<close> raises on a
  validation failure the answer is the \<open>InternalError\<close> of the outer \<open>catch\<close>.
\<close>

theorem invalid_arguments_error_hook_raises:
  "getTool (mcpServer (transport_with error_raises None)) ''echo'' = Some echo_tool
   \<and> safeParse (tool_schema echo_tool) (JObj [])
       = Inl \<lparr> issues_message = ''text: Required'', issues_flatten = ''fieldErrors: text: Required'' \<rparr>
   \<and> fst (handleHttpRequest demo_runtime (transport_with error_raises None) (call_echo (JObj []))
            fresh_world) = Done ()
   \<and> res_writes (res (snd (handleHttpRequest demo_runtime (transport_with error_raises None)
                              (call_echo (JObj [])) fresh_world)))
      = [(200, JsonRpcError (Some (IdNumber double_one)) (- 32603) ''Internal server error'')]"
  by (simp add: demo_defs request_defs run_defs)

text \<open>
  C7, as the code has it. When the handler of a \<open>tools/call\<close> raises,
  \<open>onToolCallError\<close> is called (where configured) with the raised \<open>Error\<close> itself, or with a
  fixed fallback text for a raised value that is no \<open>Error\<close>, and with the elapsed time,
  which is at least 0 on a clock that never runs backwards, whatever the hook does. If the
  hook returns (or is not configured), the answer is \<open>InternalError\<close> (-32603) with the
  message of the raised \<open>Error\<close>, or with that fallback text.
\<close>

theorem handler_failure_reported:
  assumes "reaches_dispatch t req rq" and "rpc_method rq = ''tools/call''"
    and "CallToolParamsSchema_safeParse (rpc_params rq) = Some p"
    and "getTool (mcpServer t) (call_name p) = Some td"
    and "safeParse (tool_schema td) (rawInput_of p) = Inr (Some input)"
    and "hook_returns (map_option (\<lambda>h. h (call_name p) (rawInput_of p)) (hook_of t onToolCallStarted))"
    and "tool_handler td input = Raises err"
    and "mono (clock rt)"
  shows "(case handleHttpRequest rt t req w of
            (out, w') \<Rightarrow>
              out = Done ()
              \<and> trace w' = trace w
                    @ fired (hook_of t onToolCallStarted) (ToolCallStarted (call_name p) (rawInput_of p))
                    @ [HandlerCalled (call_name p) input]
                    @ fired (hook_of t onToolCallError)
                        (ToolCallError (call_name p) (rawInput_of p)
                           (if instanceof_Error err then AsError err
                            else AsString ''Unknown error occurred while calling tool'')
                           (elapsed_in rt w))
              \<and> 0 \<le> elapsed_in rt w
              \<and> (hook_returns
                     (map_option
                        (\<lambda>h. h (call_name p) (rawInput_of p)
                               (if instanceof_Error err then AsError err
                                else AsString ''Unknown error occurred while calling tool'')
                               (elapsed_in rt w))
                        (hook_of t onToolCallError))
                   \<longrightarrow> res_writes (res w') = res_writes (res w)
                         @ [(200, JsonRpcError (rpc_id rq) (- 32603)
                                    (if instanceof_Error err then message err
                                     else ''Unknown error occurred while calling tool''))]))"
proof -
  have re: "reported_error err =
      (if instanceof_Error err then AsError err
       else AsString ''Unknown error occurred while calling tool'')"
    by (simp add: reported_error_def responseMessage_of_def)
  have rm: "responseMessage_of err =
      (if instanceof_Error err then message err else ''Unknown error occurred while calling tool'')"
    by (simp add: responseMessage_of_def)
  have el: "0 \<le> elapsed_in rt w"
    using assms(8) by (simp add: elapsed_in_def mono_def)
  note H = handleHttpRequest_tools_call[OF assms(1,2)]
  note T = handleToolCall_raises[OF assms(3,4,5,6,7), where rt = rt and w = "after_cors t req w"]
  have "(case handleHttpRequest rt t req w of
            (out, w') \<Rightarrow>
              out = Done ()
              \<and> trace w' = trace w
                    @ fired (hook_of t onToolCallStarted) (ToolCallStarted (call_name p) (rawInput_of p))
                    @ [HandlerCalled (call_name p) input]
                    @ fired (hook_of t onToolCallError)
                        (ToolCallError (call_name p) (rawInput_of p) (reported_error err) (elapsed_in rt w))
              \<and> 0 \<le> elapsed_in rt w
              \<and> (hook_returns
                     (map_option
                        (\<lambda>h. h (call_name p) (rawInput_of p) (reported_error err) (elapsed_in rt w))
                        (hook_of t onToolCallError))
                   \<longrightarrow> res_writes (res w') = res_writes (res w)
                         @ [(200, JsonRpcError (rpc_id rq) (- 32603) (responseMessage_of err))]))"
  proof (cases "hook_of t onToolCallError")
    case None
    then show ?thesis
      by (simp add: H T Let_def InternalError_def after_cors_writes[OF assms(1)] hook_returns_def el)
  next
    case (Some h)
    then show ?thesis
      by (cases "h (call_name p) (rawInput_of p) (reported_error err) (elapsed_in rt w)")
         (simp_all add: H T Let_def InternalError_def after_cors_writes[OF assms(1)] hook_returns_def el)
  qed
  then show ?thesis
    unfolding re rm .
qed

theorem handler_failure_reported_witness:
  "reaches_dispatch demo_transport call_explode explode_rq
   \<and> rpc_method explode_rq = ''tools/call''
   \<and> CallToolParamsSchema_safeParse (rpc_params explode_rq)
        = Some \<lparr> call_name = ''explode'', call_arguments = Some (JObj [(''text'', JStr ''hi'')]) \<rparr>
   \<and> getTool (mcpServer demo_transport) ''explode'' = Some failing_tool
   \<and> safeParse (tool_schema failing_tool) (JObj [(''text'', JStr ''hi'')])
        = Inr (Some (JObj [(''text'', JStr ''hi'')]))
   \<and> hook_returns (map_option (\<lambda>h. h ''explode'' (JObj [(''text'', JStr ''hi'')]))
                      (hook_of demo_transport onToolCallStarted))
   \<and> tool_handler failing_tool (JObj [(''text'', JStr ''hi'')]) = Raises (OtherError ''boom'')
   \<and> hook_returns (map_option (\<lambda>h. h ''explode'' (JObj [(''text'', JStr ''hi'')])
                                     (AsError (OtherError ''boom'')) 7)
                      (hook_of demo_transport onToolCallError))
   \<and> mono (clock demo_runtime)
   \<and> fst (handleHttpRequest demo_runtime demo_transport call_explode fresh_world) = Done ()
   \<and> res_writes (res (snd (handleHttpRequest demo_runtime demo_transport call_explode fresh_world)))
        = [(200, JsonRpcError (Some (IdNumber double_one)) (- 32603) ''boom'')]
   \<and> trace (snd (handleHttpRequest demo_runtime demo_transport call_explode fresh_world))
        = [ToolCallStarted ''explode'' (JObj [(''text'', JStr ''hi'')]),
           HandlerCalled ''explode'' (JObj [(''text'', JStr ''hi'')]),
           ToolCallError ''explode'' (JObj [(''text'', JStr ''hi'')]) (AsError (OtherError ''boom'')) 7]"
proof -
  let ?raw = "JObj [(''text'', JStr ''hi'')]"
  let ?p = "\<lparr> call_name = ''explode'', call_arguments = Some ?raw \<rparr>"
  let ?err = "OtherError ''boom''"
  have h1: "reaches_dispatch demo_transport call_explode explode_rq"
    by (simp add: demo_defs request_defs)
  have h2: "rpc_method explode_rq = ''tools/call''"
    by (simp add: explode_rq_def)
  have h3: "CallToolParamsSchema_safeParse (rpc_params explode_rq) = Some ?p"
    by (simp add: explode_rq_def CallToolParamsSchema_safeParse_def)
  have h4: "getTool (mcpServer demo_transport) (call_name ?p) = Some failing_tool"
    by (simp add: demo_defs request_defs)
  have h5: "safeParse (tool_schema failing_tool) (rawInput_of ?p) = Inr (Some ?raw)"
    by (simp add: demo_defs request_defs)
  have h6: "hook_returns (map_option (\<lambda>h. h (call_name ?p) (rawInput_of ?p))
                            (hook_of demo_transport onToolCallStarted))"
    by (simp add: demo_defs request_defs)
  have h7: "tool_handler failing_tool ?raw = Raises ?err"
    by (simp add: failing_tool_def)
  have h8: "hook_returns
           (map_option
              (\<lambda>h. h (call_name ?p) (rawInput_of ?p)
                     (if instanceof_Error ?err then AsError ?err
                      else AsString ''Unknown error occurred while calling tool'')
                     (elapsed_in demo_runtime fresh_world))
              (hook_of demo_transport onToolCallError))"
    by (simp add: demo_defs request_defs)
  have h9: "mono (clock demo_runtime)"
    by (simp add: demo_runtime_def mono_def)
  from handler_failure_reported[OF h1 h2 h3 h4 h5 h6 h7 h9, where w = fresh_world] h8
  have c: "fst (handleHttpRequest demo_runtime demo_transport call_explode fresh_world) = Done ()
   \<and> res_writes (res (snd (handleHttpRequest demo_runtime demo_transport call_explode fresh_world)))
        = [(200, JsonRpcError (Some (IdNumber double_one)) (- 32603) ''boom'')]
   \<and> trace (snd (handleHttpRequest demo_runtime demo_transport call_explode fresh_world))
        = [ToolCallStarted ''explode'' ?raw, HandlerCalled ''explode'' ?raw,
           ToolCallError ''explode'' ?raw (AsError ?err) 7]"
    by (simp add: demo_defs request_defs split: prod.splits)
  from h1 h2 h3 h4 h5 h6 h7 h8 h9 c show ?thesis
    by (simp add: demo_defs request_defs)
qed

text \<open>
  C7 as stated fails: when \<open>onToolCallError\<close> raises, the answer no longer carries the
  message of the handler's error (\<open>boom\<close>) but the text of the outer \<open>catch\<close>.
\<close>

theorem handler_failure_error_hook_raises:
  "tool_handler failing_tool (JObj [(''text'', JStr ''hi'')]) = Raises (OtherError ''boom'')
   \<and> res_writes (res (snd (handleHttpRequest demo_runtime (transport_with error_raises None)
                              call_explode fresh_world)))
      = [(200, JsonRpcError (Some (IdNumber double_one)) (- 32603) ''Internal server error'')]
   \<and> trace (snd (handleHttpRequest demo_runtime (transport_with error_raises None)
                              call_explode fresh_world))
      = [ToolCallStarted ''explode'' (JObj [(''text'', JStr ''hi'')]),
         HandlerCalled ''explode'' (JObj [(''text'', JStr ''hi'')]),
         ToolCallError ''explode'' (JObj [(''text'', JStr ''hi'')]) (AsError (OtherError ''boom'')) 7]"
  by (simp add: demo_defs request_defs run_defs)

text \<open>
  C4, as the code has it. When the handler of a \<open>tools/call\<close> returns and the hooks
  \<open>onToolCallStarted\<close> and \<open>onToolCallFinished\<close> return (or are not configured), the answer is
  the success envelope \<open>{content: result}\<close>.
\<close>

theorem tool_success_envelope:
  assumes "reaches_dispatch t req rq" and "rpc_method rq = ''tools/call''"
    and "CallToolParamsSchema_safeParse (rpc_params rq) = Some p"
    and "getTool (mcpServer t) (call_name p) = Some td"
    and "safeParse (tool_schema td) (rawInput_of p) = Inr (Some input)"
    and "hook_returns (map_option (\<lambda>h. h (call_name p) (rawInput_of p)) (hook_of t onToolCallStarted))"
    and "tool_handler td input = Returns result"
    and "hook_returns (map_option (\<lambda>h. h (call_name p) (rawInput_of p) result (elapsed_in rt w))
                         (hook_of t onToolCallFinished))"
  shows "(case handleHttpRequest rt t req w of
            (out, w') \<Rightarrow>
              out = Done ()
              \<and> res_writes (res w') = res_writes (res w)
                    @ [(200, JsonRpcResult (rpc_id rq) (ToolCallResult result))]
              \<and> trace w' = trace w
                    @ fired (hook_of t onToolCallStarted) (ToolCallStarted (call_name p) (rawInput_of p))
                    @ [HandlerCalled (call_name p) input]
                    @ fired (hook_of t onToolCallFinished)
                        (ToolCallFinished (call_name p) (rawInput_of p) result (elapsed_in rt w)))"
  using assms(8)
  by (simp add: handleHttpRequest_tools_call[OF assms(1,2)]
      handleToolCall_returns[OF assms(3,4,5,6,7)] after_cors_writes[OF assms(1)])

theorem tool_success_envelope_witness:
  "reaches_dispatch demo_transport (call_echo (JObj [(''text'', JStr ''hi'')]))
     (echo_rq (JObj [(''text'', JStr ''hi'')]))
   \<and> rpc_method (echo_rq (JObj [(''text'', JStr ''hi'')])) = ''tools/call''
   \<and> CallToolParamsSchema_safeParse (rpc_params (echo_rq (JObj [(''text'', JStr ''hi'')])))
        = Some \<lparr> call_name = ''echo'', call_arguments = Some (JObj [(''text'', JStr ''hi'')]) \<rparr>
   \<and> getTool (mcpServer demo_transport) ''echo'' = Some echo_tool
   \<and> safeParse (tool_schema echo_tool) (JObj [(''text'', JStr ''hi'')])
        = Inr (Some (JObj [(''text'', JStr ''hi'')]))
   \<and> hook_returns (map_option (\<lambda>h. h ''echo'' (JObj [(''text'', JStr ''hi'')]))
                      (hook_of demo_transport onToolCallStarted))
   \<and> tool_handler echo_tool (JObj [(''text'', JStr ''hi'')]) = Returns [TextContent ''hi'']
   \<and> hook_returns (map_option (\<lambda>h. h ''echo'' (JObj [(''text'', JStr ''hi'')]) [TextContent ''hi''] 7)
                      (hook_of demo_transport onToolCallFinished))
   \<and> fst (handleHttpRequest demo_runtime demo_transport (call_echo (JObj [(''text'', JStr ''hi'')]))
            fresh_world) = Done ()
   \<and> res_writes (res (snd (handleHttpRequest demo_runtime demo_transport
                              (call_echo (JObj [(''text'', JStr ''hi'')])) fresh_world)))
        = [(200, JsonRpcResult (Some (IdNumber double_one)) (ToolCallResult [TextContent ''hi'']))]"
proof -
  let ?raw = "JObj [(''text'', JStr ''hi'')]"
  let ?p = "\<lparr> call_name = ''echo'', call_arguments = Some ?raw \<rparr>"
  have h1: "reaches_dispatch demo_transport (call_echo ?raw) (echo_rq ?raw)"
    by (simp add: demo_defs request_defs)
  have h2: "rpc_method (echo_rq ?raw) = ''tools/call''"
    by (simp add: echo_rq_def)
  have h3: "CallToolParamsSchema_safeParse (rpc_params (echo_rq ?raw)) = Some ?p"
    by (simp add: echo_rq_def CallToolParamsSchema_safeParse_def)
  have h4: "getTool (mcpServer demo_transport) (call_name ?p) = Some echo_tool"
    by (simp add: demo_defs request_defs)
  have h5: "safeParse (tool_schema echo_tool) (rawInput_of ?p) = Inr (Some ?raw)"
    by (simp add: demo_defs request_defs)
  have h6: "hook_returns (map_option (\<lambda>h. h (call_name ?p) (rawInput_of ?p))
                            (hook_of demo_transport onToolCallStarted))"
    by (simp add: demo_defs request_defs)
  have h7: "tool_handler echo_tool ?raw = Returns [TextContent ''hi'']"
    by (simp add: echo_tool_def)
  have h8: "hook_returns (map_option (\<lambda>h. h (call_name ?p) (rawInput_of ?p) [TextContent ''hi'']
                                         (elapsed_in demo_runtime fresh_world))
                            (hook_of demo_transport onToolCallFinished))"
    by (simp add: demo_defs request_defs)
  from tool_success_envelope[OF h1 h2 h3 h4 h5 h6 h7 h8]
  have c: "fst (handleHttpRequest demo_runtime demo_transport (call_echo ?raw) fresh_world) = Done ()
   \<and> res_writes (res (snd (handleHttpRequest demo_runtime demo_transport (call_echo ?raw) fresh_world)))
        = [(200, JsonRpcResult (Some (IdNumber double_one)) (ToolCallResult [TextContent ''hi'']))]"
    by (simp add: demo_defs request_defs split: prod.splits)
  from h1 h2 h3 h4 h5 h6 h7 h8 c show ?thesis
    by (simp add: demo_defs request_defs)
qed

text \<open>
  C4 as stated fails: a failure of \<open>onToolCallFinished\<close> is not swallowed. The handler
  returned, yet the answer is \<open>InternalError\<close> with the hook's message, and
  \<open>onToolCallError\<close> is called as well.
\<close>

theorem tool_success_finished_hook_raises:
  "tool_handler echo_tool (JObj [(''text'', JStr ''hi'')]) = Returns [TextContent ''hi'']
   \<and> res_writes (res (snd (handleHttpRequest demo_runtime (transport_with finished_raises None)
                              (call_echo (JObj [(''text'', JStr ''hi'')])) fresh_world)))
      = [(200, JsonRpcError (Some (IdNumber double_one)) (- 32603) ''hook failed'')]
   \<and> trace (snd (handleHttpRequest demo_runtime (transport_with finished_raises None)
                              (call_echo (JObj [(''text'', JStr ''hi'')])) fresh_world))
      = [ToolCallStarted ''echo'' (JObj [(''text'', JStr ''hi'')]),
         HandlerCalled ''echo'' (JObj [(''text'', JStr ''hi'')]),
         ToolCallFinished ''echo'' (JObj [(''text'', JStr ''hi'')]) [TextContent ''hi''] 7,
         ToolCallError ''echo'' (JObj [(''text'', JStr ''hi'')]) (AsError (OtherError ''hook failed'')) 14]"
  by (simp add: demo_defs request_defs run_defs)











text \<open>
  Two more runs on the sample server. The id \<open>1e999\<close> is read as an infinity, passes the
  envelope schema and is answered with the id \<open>null\<close>.
\<close>

lemma infinite_id_answered_null:
  "JsonRpcRequestSchema_parse (rpc plus_infinity ''ping'' (JObj []))
     = Some \<lparr> rpc_id = Some (IdNumber plus_infinity), rpc_method = ''ping'',
              rpc_params = Some (JObj []) \<rparr>
   \<and> map (\<lambda>x. (fst x, wire_id (snd x)))
         (res_writes (res (snd (handleHttpRequest demo_runtime demo_transport
                                  (post_mcp (ParsedJson (rpc plus_infinity ''ping'' (JObj []))))
                                  fresh_world))))
        = [(200, Some WireNull)]"
  by (simp add: demo_defs request_defs run_defs)

text \<open>The tool \<open>void\<close> parses its arguments to \<open>undefined\<close>: the call ends with no response,
  no hook call and no handler call.\<close>

lemma undefined_parse_no_response:
  "reaches_dispatch demo_transport call_void void_rq
   \<and> safeParse (tool_schema void_tool) (JObj []) = Inr None
   \<and> fst (handleHttpRequest demo_runtime demo_transport call_void fresh_world) = Done ()
   \<and> res_writes (res (snd (handleHttpRequest demo_runtime demo_transport call_void fresh_world))) = []
   \<and> trace (snd (handleHttpRequest demo_runtime demo_transport call_void fresh_world)) = []"
  by (simp add: demo_defs request_defs run_defs)

text \<open>
  C1, as the code has it. For a \<open>POST\<close> to the MCP path that passes the CORS check, a body
  that is not JSON is answered with \<open>ParseError\<close> (-32700), and a body that is JSON but not
  a JSON-RPC envelope with \<open>InvalidParams\<close> (-32602); the \<open>id\<close> of either response is
  \<open>null\<close>, and no hook is called.
\<close>

theorem envelope_failure_codes:
  assumes "fst (ensureCors t req fresh_response)" and "req_method req = ''POST''"
    and "Some (requestPath req) = opt_path (options t)"
  shows "(req_body req = MalformedJson m \<longrightarrow>
            (case handleHttpRequest rt t req w of
               (out, w') \<Rightarrow>
                 out = Done ()
                 \<and> res_writes (res w') = res_writes (res w)
                       @ [(200, JsonRpcError None (- 32700) ''Invalid JSON'')]
                 \<and> trace w' = trace w))
       \<and> (req_body req = ParsedJson j \<and> JsonRpcRequestSchema_parse j = None \<longrightarrow>
            (case handleHttpRequest rt t req w of
               (out, w') \<Rightarrow>
                 out = Done ()
                 \<and> res_writes (res w') = res_writes (res w)
                       @ [(200, JsonRpcError None (- 32602) ''Invalid request format'')]
                 \<and> trace w' = trace w))"
proof -
  from assms(1) have c: "fst (ensureCors t req (res w))"
    using ensureCors_fst by metis
  then have e: "ensureCors t req (res w) = (True, snd (ensureCors t req (res w)))"
    by (cases "ensureCors t req (res w)") simp
  have W: "res_writes (res (after_cors t req w)) = res_writes (res w)"
    by (simp add: after_cors_def ensureCors_pass_writes[OF c])
  have H: "handleHttpRequest rt t req w =
      (case dispatch rt t req (after_cors t req w) of
         (Threw e, requestId, w1) \<Rightarrow>
           (Done (), send (sendJsonRpcProtocolError requestId (catch_code e) (catch_message e)) w1)
       | (out, requestId, w1) \<Rightarrow> (out, w1))"
    unfolding handleHttpRequest_def
    apply (subst e)
    apply (simp add: canHandle_post[OF assms(2,3)] after_cors_def
        split: prod.splits Outcome.splits thrown.splits)
    done
  show ?thesis
    by (simp add: H dispatch_def readRequestBody_def W ParseError_def InvalidParams_def)
qed

theorem envelope_failure_codes_witness:
  "fst (ensureCors demo_transport (post_mcp (MalformedJson ''Unexpected end of JSON input'')) fresh_response)
   \<and> req_method (post_mcp (MalformedJson ''Unexpected end of JSON input'')) = ''POST''
   \<and> Some (requestPath (post_mcp (MalformedJson ''Unexpected end of JSON input'')))
        = opt_path (options demo_transport)
   \<and> res_writes (res (snd (handleHttpRequest demo_runtime demo_transport
                              (post_mcp (MalformedJson ''Unexpected end of JSON input'')) fresh_world)))
        = [(200, JsonRpcError None (- 32700) ''Invalid JSON'')]
   \<and> fst (ensureCors demo_transport (post_mcp (ParsedJson bad_envelope)) fresh_response)
   \<and> req_method (post_mcp (ParsedJson bad_envelope)) = ''POST''
   \<and> Some (requestPath (post_mcp (ParsedJson bad_envelope))) = opt_path (options demo_transport)
   \<and> JsonRpcRequestSchema_parse bad_envelope = None
   \<and> res_writes (res (snd (handleHttpRequest demo_runtime demo_transport
                              (post_mcp (ParsedJson bad_envelope)) fresh_world)))
        = [(200, JsonRpcError None (- 32602) ''Invalid request format'')]"
proof -
  let ?a = "post_mcp (MalformedJson ''Unexpected end of JSON input'')"
  let ?b = "post_mcp (ParsedJson bad_envelope)"
  have a1: "fst (ensureCors demo_transport ?a fresh_response)"
    and a2: "req_method ?a = ''POST''"
    and a3: "Some (requestPath ?a) = opt_path (options demo_transport)"
    and a4: "req_body ?a = MalformedJson ''Unexpected end of JSON input''"
    by (simp_all add: demo_defs request_defs)
  have b1: "fst (ensureCors demo_transport ?b fresh_response)"
    and b2: "req_method ?b = ''POST''"
    and b3: "Some (requestPath ?b) = opt_path (options demo_transport)"
    and b4: "req_body ?b = ParsedJson bad_envelope"
    and b5: "JsonRpcRequestSchema_parse bad_envelope = None"
    by (simp_all add: demo_defs request_defs)
  from envelope_failure_codes[OF a1 a2 a3, where rt = demo_runtime and w = fresh_world
      and m = "''Unexpected end of JSON input''"] a4
  have ca: "res_writes (res (snd (handleHttpRequest demo_runtime demo_transport ?a fresh_world)))
        = [(200, JsonRpcError None (- 32700) ''Invalid JSON'')]"
    by (simp add: fresh_world_def fresh_response_def split: prod.splits)
  from envelope_failure_codes[OF b1 b2 b3, where rt = demo_runtime and w = fresh_world
      and j = bad_envelope] b4 b5
  have cb: "res_writes (res (snd (handleHttpRequest demo_runtime demo_transport ?b fresh_world)))
        = [(200, JsonRpcError None (- 32602) ''Invalid request format'')]"
    by (simp add: fresh_world_def fresh_response_def split: prod.splits)
  from a1 a2 a3 ca b1 b2 b3 b5 cb show ?thesis
    by simp
qed

text \<open>
  C1 as stated fails: the envelope below is JSON, fails the shape validation and carries
  the id 1; the answer has the code -32602, not -32700, and the id \<open>null\<close>.
\<close>

theorem bad_envelope_is_invalid_params:
  "JsonRpcRequestSchema_parse bad_envelope = None
   \<and> res_writes (res (snd (handleHttpRequest demo_runtime demo_transport
                              (post_mcp (ParsedJson bad_envelope)) fresh_world)))
      = [(200, JsonRpcError None (- 32602) ''Invalid request format'')]"
  by (simp add: demo_defs request_defs run_defs)

text \<open>
  A request that is not \<open>OPTIONS\<close>, passes the CORS check and whose path is not the MCP
  path is answered 404, whatever \<open>customRoutes\<close> holds.
\<close>

lemma unmatched_path_404:
  assumes "fst (ensureCors t req fresh_response)" and "req_method req \<noteq> ''OPTIONS''"
    and "Some (requestPath req) \<noteq> opt_path (options t)"
  shows "(case handleHttpRequest rt t req w of
            (out, w') \<Rightarrow> out = Done () \<and> trace w' = trace w
              \<and> res_writes (res w') = res_writes (res w) @ [(404, PlainText ''Not found'')])"
proof -
  from assms(1) have c: "fst (ensureCors t req (res w))"
    using ensureCors_fst by metis
  then have e: "ensureCors t req (res w) = (True, snd (ensureCors t req (res w)))"
    by (cases "ensureCors t req (res w)") simp
  show ?thesis
    unfolding handleHttpRequest_def
    apply (subst e)
    apply (simp add: canHandle_def assms(2,3) sendError_def writeHead_end_def
        ensureCors_pass_writes[OF c])
    done
qed

text \<open>
  C2 on the code. \<open>McpServer.route\<close> registers a handler for \<open>GET /health\<close> and
  \<open>McpServer.start\<close> hands it to the transport in \<open>customRoutes\<close>, but \<open>canHandle\<close> never
  looks there: the request is answered 404 and the handler, which would have answered
  200, does not run.
\<close>

theorem registered_route_not_served:
  "route empty_server GET ''/health'' health_handler = Inr health_server
   \<and> McpServer_start health_server None
       = Inr (health_server\<lparr> srv_started := True \<rparr>, health_transport)
   \<and> fst (handleHttpRequest demo_runtime health_transport get_health fresh_world) = Done ()
   \<and> res_writes (res (snd (handleHttpRequest demo_runtime health_transport get_health fresh_world)))
       = [(404, PlainText ''Not found'')]
   \<and> res_writes (health_handler get_health fresh_response) = [(200, PlainText ''healthy'')]"
  by (simp add: route_def McpServer_start_def Map_has_def spread_hooks_def demo_defs request_defs
      run_defs health_handler_def)

text \<open>
  C8, as the code has it. Under an allow-list, a request whose \<open>Origin\<close> header is absent
  or empty passes with the response untouched; one whose non-empty \<open>Origin\<close> is in the list
  passes with that origin in \<open>Access-Control-Allow-Origin\<close> and with
  \<open>Access-Control-Allow-Credentials: true\<close>; any other non-empty \<open>Origin\<close> ends the pipeline
  with a 403, no hook called and \<open>Access-Control-Allow-Origin\<close> left as it was.
\<close>

theorem allow_list_cors:
  assumes "allowedOrigins t = Origins allowed"
  shows "(\<not> truthy (req_origin req) \<longrightarrow> ensureCors t req r = (True, r))
       \<and> (req_origin req = Some orig \<and> orig \<noteq> [] \<and> orig \<in> set allowed \<longrightarrow>
            fst (ensureCors t req r)
            \<and> res_headers (snd (ensureCors t req r)) ''Access-Control-Allow-Origin'' = Some orig
            \<and> res_headers (snd (ensureCors t req r)) ''Access-Control-Allow-Credentials'' = Some ''true''
            \<and> res_writes (snd (ensureCors t req r)) = res_writes r)
       \<and> (req_origin req = Some orig \<and> orig \<noteq> [] \<and> orig \<notin> set allowed \<longrightarrow>
            (case handleHttpRequest rt t req w of
               (out, w') \<Rightarrow>
                 out = Done () \<and> trace w' = trace w
                 \<and> res_writes (res w') = res_writes (res w) @ [(403, PlainText ''Forbidden origin'')]
                 \<and> res_headers (res w') ''Access-Control-Allow-Origin''
                     = res_headers (res w) ''Access-Control-Allow-Origin''))"
  using assms
  by (cases "req_origin req")
     (auto simp: ensureCors_def handleHttpRequest_def setHeader_def sendError_def writeHead_end_def)

theorem allow_list_cors_witness:
  "allowedOrigins strict_transport = Origins [''https://good.example'']
   \<and> \<not> truthy (req_origin (ping_from None))
   \<and> ensureCors strict_transport (ping_from None) fresh_response = (True, fresh_response)
   \<and> req_origin (ping_from (Some ''https://good.example'')) = Some ''https://good.example''
   \<and> ''https://good.example'' \<noteq> []
   \<and> ''https://good.example'' \<in> set [''https://good.example'']
   \<and> fst (ensureCors strict_transport (ping_from (Some ''https://good.example'')) fresh_response)
   \<and> res_headers (snd (ensureCors strict_transport (ping_from (Some ''https://good.example''))
                          fresh_response)) ''Access-Control-Allow-Origin''
        = Some ''https://good.example''
   \<and> req_origin (ping_from (Some ''https://evil.example'')) = Some ''https://evil.example''
   \<and> ''https://evil.example'' \<noteq> []
   \<and> ''https://evil.example'' \<notin> set [''https://good.example'']
   \<and> res_writes (res (snd (handleHttpRequest demo_runtime strict_transport
                              (ping_from (Some ''https://evil.example'')) fresh_world)))
        = [(403, PlainText ''Forbidden origin'')]
   \<and> res_headers (res (snd (handleHttpRequest demo_runtime strict_transport
                               (ping_from (Some ''https://evil.example'')) fresh_world)))
          ''Access-Control-Allow-Origin'' = None"
proof -
  let ?good = "''https://good.example''"
  let ?evil = "''https://evil.example''"
  have h: "allowedOrigins strict_transport = Origins [?good]"
    by (simp add: demo_defs)
  have n1: "\<not> truthy (req_origin (ping_from None))"
    by (simp add: ping_from_def)
  have g1: "req_origin (ping_from (Some ?good)) = Some ?good \<and> ?good \<noteq> [] \<and> ?good \<in> set [?good]"
    by (simp add: ping_from_def)
  have e1: "req_origin (ping_from (Some ?evil)) = Some ?evil \<and> ?evil \<noteq> [] \<and> ?evil \<notin> set [?good]"
    by (simp add: ping_from_def)
  from allow_list_cors[OF h, where req = "ping_from None" and r = fresh_response] n1
  have cn: "ensureCors strict_transport (ping_from None) fresh_response = (True, fresh_response)"
    by simp
  from allow_list_cors[OF h, where req = "ping_from (Some ?good)" and r = fresh_response
      and orig = ?good] g1
  have cg: "fst (ensureCors strict_transport (ping_from (Some ?good)) fresh_response)
      \<and> res_headers (snd (ensureCors strict_transport (ping_from (Some ?good)) fresh_response))
           ''Access-Control-Allow-Origin'' = Some ?good"
    by simp
  from allow_list_cors[OF h, where req = "ping_from (Some ?evil)" and orig = ?evil
      and rt = demo_runtime and w = fresh_world] e1
  have ce: "res_writes (res (snd (handleHttpRequest demo_runtime strict_transport
                              (ping_from (Some ?evil)) fresh_world)))
        = [(403, PlainText ''Forbidden origin'')]
      \<and> res_headers (res (snd (handleHttpRequest demo_runtime strict_transport
                               (ping_from (Some ?evil)) fresh_world)))
          ''Access-Control-Allow-Origin'' = None"
    by (simp add: fresh_world_def fresh_response_def split: prod.splits)
  from h n1 g1 e1 cn cg ce show ?thesis
    by simp
qed

text \<open>
  C8 as stated fails for an \<open>Origin\<close> header that is present and empty: it is not in the
  allow-list, yet the request is not rejected.
\<close>

theorem empty_origin_passes_allow_list:
  "allowedOrigins strict_transport = Origins [''https://good.example'']
   \<and> req_origin (ping_from (Some [])) = Some []
   \<and> [] \<notin> set [''https://good.example'']
   \<and> ensureCors strict_transport (ping_from (Some [])) fresh_response = (True, fresh_response)
   \<and> res_writes (res (snd (handleHttpRequest demo_runtime strict_transport (ping_from (Some []))
                              fresh_world)))
       = [(200, JsonRpcResult (Some (IdNumber double_one)) PingResult)]"
  by (simp add: demo_defs request_defs run_defs)

lemma Map_set_absent: "k \<notin> set (map fst ps) \<Longrightarrow> Map_set k v ps = ps @ [(k, v)]"
  by (induction ps) auto

lemma filter_absent: "k \<notin> set (map fst ps) \<Longrightarrow> filter (\<lambda>e. fst e = k) ps = []"
  by (induction ps) auto

lemma map_of_append_absent: "k \<notin> fst ` set ps \<Longrightarrow> ([k \<mapsto> v] ++ map_of ps) k = Some v"
proof -
  assume "k \<notin> fst ` set ps"
  then have "map_of ps k = None"
    by (simp add: map_of_eq_None_iff)
  then show ?thesis
    by (simp add: map_add_def)
qed

text \<open>
  C9. Registering a tool under a name the registry already has raises, leaves the server
  as it was and calls no hook. Registering under a new name appends the definition, so
  that the registry holds exactly this one definition under the name, and calls
  \<open>onToolRegistered\<close> (where configured) with the name and the description; every later
  registration under that name fails and changes nothing.
\<close>

theorem tool_registration:
  "(hasTool s (tool_name t) \<longrightarrow> tool s t = (Threw (duplicate_error (tool_name t)), s, []))
   \<and> (\<not> hasTool s (tool_name t) \<longrightarrow>
        (case tool s t of
           (out, s', evs) \<Rightarrow>
             srv_tools s' = srv_tools s @ [(tool_name t, t)]
             \<and> getTool s' (tool_name t) = Some t
             \<and> filter (\<lambda>e. fst e = tool_name t) (srv_tools s') = [(tool_name t, t)]
             \<and> evs = fired (registered_hook s) (ToolRegistered (tool_name t) (description_of t))
             \<and> (out = Done ()
                  \<longleftrightarrow> hook_returns (map_option (\<lambda>h. h (tool_name t) (description_of t))
                                      (registered_hook s)))
             \<and> (\<forall>t2. tool_name t2 = tool_name t \<longrightarrow>
                   tool s' t2 = (Threw (duplicate_error (tool_name t)), s', []))))"
proof -
  have dup: "\<And>s t. hasTool s (tool_name t) \<Longrightarrow> tool s t = (Threw (duplicate_error (tool_name t)), s, [])"
    by (simp add: tool_def duplicate_error_def)
  have fresh: "\<not> hasTool s (tool_name t) \<Longrightarrow>
        (case tool s t of
           (out, s', evs) \<Rightarrow>
             srv_tools s' = srv_tools s @ [(tool_name t, t)]
             \<and> getTool s' (tool_name t) = Some t
             \<and> filter (\<lambda>e. fst e = tool_name t) (srv_tools s') = [(tool_name t, t)]
             \<and> evs = fired (registered_hook s) (ToolRegistered (tool_name t) (description_of t))
             \<and> (out = Done ()
                  \<longleftrightarrow> hook_returns (map_option (\<lambda>h. h (tool_name t) (description_of t))
                                      (registered_hook s)))
             \<and> hasTool s' (tool_name t))"
    by (auto simp: tool_def hasTool_def getTool_def Let_def registered_hook_def description_of_def
        hook_returns_def Map_set_absent filter_absent map_of_append_absent
        split: option.splits)
  show ?thesis
  proof (cases "hasTool s (tool_name t)")
    case True
    then show ?thesis by (simp add: dup)
  next
    case False
    from fresh[OF False] show ?thesis
      using False by (auto split: prod.splits simp: dup)
  qed
qed

theorem tool_registration_witness:
  "\<not> hasTool observed_server (tool_name echo_tool)
   \<and> fst (tool observed_server echo_tool) = Done ()
   \<and> getTools (fst (snd (tool observed_server echo_tool))) = [echo_tool]
   \<and> snd (snd (tool observed_server echo_tool)) = [ToolRegistered ''echo'' ''Echo the provided text'']
   \<and> tool_name echo_again = tool_name echo_tool
   \<and> hasTool (fst (snd (tool observed_server echo_tool))) (tool_name echo_again)
   \<and> tool (fst (snd (tool observed_server echo_tool))) echo_again
        = (Threw (duplicate_error ''echo''), fst (snd (tool observed_server echo_tool)), [])"
proof -
  let ?s1 = "fst (snd (tool observed_server echo_tool))"
  have f: "\<not> hasTool observed_server (tool_name echo_tool)"
    by (simp add: hasTool_def observed_server_def empty_server_def)
  have n: "tool_name echo_again = tool_name echo_tool"
    by (simp add: echo_again_def)
  have hk: "registered_hook observed_server = Some (\<lambda>n d. None)"
    by (simp add: registered_hook_def observed_server_def empty_server_def quiet_hooks_def)
  obtain out s' evs where r: "tool observed_server echo_tool = (out, s', evs)"
    by (cases "tool observed_server echo_tool")
  from tool_registration[of observed_server echo_tool] f r
  have a: "srv_tools s' = srv_tools observed_server @ [(tool_name echo_tool, echo_tool)]"
    and b: "evs = fired (registered_hook observed_server)
                    (ToolRegistered (tool_name echo_tool) (description_of echo_tool))"
    and c: "out = Done () \<longleftrightarrow> hook_returns (map_option (\<lambda>h. h (tool_name echo_tool) (description_of echo_tool))
                                      (registered_hook observed_server))"
    and e: "\<forall>t2. tool_name t2 = tool_name echo_tool \<longrightarrow>
                   tool s' t2 = (Threw (duplicate_error (tool_name echo_tool)), s', [])"
    by simp_all
  from e n have e': "tool s' echo_again = (Threw (duplicate_error (tool_name echo_tool)), s', [])"
    by blast
  have tn: "tool_name echo_tool = ''echo''"
    and dn: "description_of echo_tool = ''Echo the provided text''"
    and st: "srv_tools observed_server = []"
    by (simp_all add: echo_tool_def description_of_def observed_server_def empty_server_def)
  from a have a': "srv_tools s' = [(''echo'', echo_tool)]"
    by (simp add: tn st)
  from b have b': "evs = [ToolRegistered ''echo'' ''Echo the provided text'']"
    by (simp add: hk tn dn)
  from c have c': "out = Done ()"
    by (simp add: hk hook_returns_def)
  from e' have e'': "tool s' echo_again = (Threw (duplicate_error ''echo''), s', [])"
    by (simp add: tn)
  have c1: "srv_tools ?s1 = [(''echo'', echo_tool)]
      \<and> snd (snd (tool observed_server echo_tool)) = [ToolRegistered ''echo'' ''Echo the provided text'']
      \<and> fst (tool observed_server echo_tool) = Done ()
      \<and> tool ?s1 echo_again = (Threw (duplicate_error ''echo''), ?s1, [])"
    by (simp add: r a' b' c' e'')
  then have d: "hasTool ?s1 (tool_name echo_again)"
    by (simp add: hasTool_def n tn)
  from tool_registration[of ?s1 echo_again] d
  have c2: "tool ?s1 echo_again = (Threw (duplicate_error (tool_name echo_again)), ?s1, [])"
    by simp
  from f n c1 d c2 show ?thesis
    by (simp add: getTools_def tn)
qed

lemma normalizeSchema_target:
  assumes "ref_is_string js"
  shows "normalizeSchema js = Inr (case wrapper_target js of Some d \<Rightarrow> d | None \<Rightarrow> js)"
  using assms
  by (cases js)
     (auto simp: ref_is_string_def wrapper_target_def Let_def split: option.splits json.splits)

lemma wrapper_target_named:
  assumes "map_of ps ''$ref'' = Some (JStr (''#/definitions/'' @ name))"
    and "map_of ps ''definitions'' = Some (JObj defs)"
    and "map_of defs name = Some d" and "is_object d"
  shows "wrapper_target (JObj ps) = Some d"
proof -
  have "remove_first ''#/definitions/'' (''#/definitions/'' @ name) = name"
    by (rule remove_first_prefix) simp
  with assms show ?thesis
    by (simp add: wrapper_target_def)
qed

text \<open>
  C10, as the code has it, for a converted schema whose \<open>$ref\<close>, if it has one, is a
  string. When the converted schema is an object whose \<open>$ref\<close>, with the first
  \<open>#/definitions/\<close> removed, names a member of its \<open>definitions\<close> that is an object, the
  adapter returns that member as it is; otherwise it returns the converted schema
  unchanged. In particular a wrapper \<open>{$ref: '#/definitions/<name>', definitions: {<name>: d}}\<close>
  gives \<open>d\<close>.
\<close>

theorem schema_adapter_inlines_target:
  assumes "ref_is_string (toJsonSchema schema toolName)"
  shows "zodSchemaToToolSchema toolName schema
           = Inr (case wrapper_target (toJsonSchema schema toolName) of
                    Some d \<Rightarrow> d
                  | None \<Rightarrow> toJsonSchema schema toolName)
       \<and> (toJsonSchema schema toolName = JObj ps
            \<and> map_of ps ''$ref'' = Some (JStr (''#/definitions/'' @ name))
            \<and> map_of ps ''definitions'' = Some (JObj defs)
            \<and> map_of defs name = Some d \<and> is_object d
            \<longrightarrow> zodSchemaToToolSchema toolName schema = Inr d)"
proof -
  have eq: "zodSchemaToToolSchema toolName schema
           = Inr (case wrapper_target (toJsonSchema schema toolName) of
                    Some d \<Rightarrow> d
                  | None \<Rightarrow> toJsonSchema schema toolName)"
    by (simp add: zodSchemaToToolSchema_def normalizeSchema_target[OF assms])
  show ?thesis
    using eq by (auto simp: wrapper_target_named)
qed

theorem schema_adapter_inlines_target_witness:
  "ref_is_string (toJsonSchema echo_schema ''echo'')
   \<and> map_of [(''echo'', echo_definition)] ''echo'' = Some echo_definition
   \<and> is_object echo_definition
   \<and> zodSchemaToToolSchema ''echo'' echo_schema = Inr echo_definition
   \<and> ref_is_string (toJsonSchema plain_schema ''plain'')
   \<and> wrapper_target (toJsonSchema plain_schema ''plain'') = None
   \<and> zodSchemaToToolSchema ''plain'' plain_schema = Inr (toJsonSchema plain_schema ''plain'')"
proof -
  let ?ps = "[(''$schema'', JStr ''http://json-schema.org/draft-07/schema#''),
              (''$ref'', JStr (''#/definitions/'' @ ''echo'')),
              (''definitions'', JObj [(''echo'', echo_definition)])]"
  have h1: "ref_is_string (toJsonSchema echo_schema ''echo'')"
    by (simp add: ref_is_string_def echo_schema_def)
  have h2: "toJsonSchema echo_schema ''echo'' = JObj ?ps
      \<and> map_of ?ps ''$ref'' = Some (JStr (''#/definitions/'' @ ''echo''))
      \<and> map_of ?ps ''definitions'' = Some (JObj [(''echo'', echo_definition)])
      \<and> map_of [(''echo'', echo_definition)] ''echo'' = Some echo_definition
      \<and> is_object echo_definition"
    by (simp add: echo_schema_def echo_definition_def)
  from schema_adapter_inlines_target[OF h1, where ps = ?ps and name = "''echo''"
      and defs = "[(''echo'', echo_definition)]" and d = echo_definition] h2
  have c1: "zodSchemaToToolSchema ''echo'' echo_schema = Inr echo_definition"
    by blast
  have h3: "ref_is_string (toJsonSchema plain_schema ''plain'')"
    by (simp add: ref_is_string_def plain_schema_def echo_definition_def)
  have h4: "wrapper_target (toJsonSchema plain_schema ''plain'') = None"
    by (simp add: wrapper_target_def plain_schema_def echo_definition_def)
  from schema_adapter_inlines_target[OF h3] h4
  have c2: "zodSchemaToToolSchema ''plain'' plain_schema = Inr (toJsonSchema plain_schema ''plain'')"
    by simp
  from h1 h2 c1 h3 h4 c2 show ?thesis
    by simp
qed

text \<open>
  C10 as stated fails: the returned definition is not always free of \<open>$ref\<close>. For a
  recursive schema it still refers to \<open>#/definitions/tree\<close>, which the returned document
  no longer contains.
\<close>

theorem recursive_schema_keeps_ref:
  "wrapper_target (toJsonSchema tree_schema ''tree'') = Some tree_definition
   \<and> zodSchemaToToolSchema ''tree'' tree_schema = Inr tree_definition
   \<and> has_ref tree_definition"
  by (simp add: wrapper_target_def zodSchemaToToolSchema_def tree_schema_def tree_definition_def)

end
